theory Spec2Isabelle
  imports Complex_Main "HOL-Library.Sublist"
begin

section \<open>JavaScript values\<close>

text \<open>
  A JavaScript \<open>number\<close> is a real (the value of a finite double), or one of the three
  special values the program can produce or receive: \<open>NaN\<close> (what \<open>parseFloat\<close> returns
  on text without a numeric prefix) and the two infinities; the sign of zero is not
  modelled. The operations \<open>+\<close> and \<open>-\<close> on \<open>number\<close> are the exact ones (on the special
  values they follow IEEE 754; \<open>x - y\<close> is \<open>x + (- y)\<close>). The operations the program
  runs, \<open>jsAdd\<close> and \<open>jsSub\<close> below, round the exact result to the nearest double.
\<close>

datatype number = Num real | PosInf | NegInf | NaN

instantiation number :: "{comm_monoid_add, uminus, minus}"
begin

definition zero_number :: number where
  "zero_number = Num 0"

fun plus_number :: "number \<Rightarrow> number \<Rightarrow> number" where
  "plus_number (Num a) (Num b) = Num (a + b)"
| "plus_number NaN _ = NaN"
| "plus_number _ NaN = NaN"
| "plus_number PosInf NegInf = NaN"
| "plus_number NegInf PosInf = NaN"
| "plus_number PosInf _ = PosInf"
| "plus_number _ PosInf = PosInf"
| "plus_number NegInf _ = NegInf"
| "plus_number _ NegInf = NegInf"

fun uminus_number :: "number \<Rightarrow> number" where
  "uminus_number (Num a) = Num (- a)"
| "uminus_number PosInf = NegInf"
| "uminus_number NegInf = PosInf"
| "uminus_number NaN = NaN"

definition minus_number :: "number \<Rightarrow> number \<Rightarrow> number" where
  "minus_number x y = x + (- y)"

instance
proof
  fix a b c :: number
  show "a + b + c = a + (b + c)"
    by (cases a; cases b; cases c; simp)
  show "a + b = b + a"
    by (cases a; cases b; simp)
  show "0 + a = a"
    by (cases a; simp add: zero_number_def)
qed

end

text \<open>
  Rounding to the nearest double, ties to even: a finite double is an integer of at most
  53 bits times a power of two, the exponent of the unit in the last place is at least
  \<open>-1074\<close> (subnormal numbers), and a result of magnitude \<open>2 ^ 1024\<close> or more is an
  infinity. \<open>ilog2 x\<close> is the integer part of the binary logarithm of a positive \<open>x\<close>.
\<close>

fun bitLength :: "nat \<Rightarrow> nat" where
  "bitLength n = (if n = 0 then 0 else Suc (bitLength (n div 2)))"

declare bitLength.simps [simp del]

definition ilog2 :: "real \<Rightarrow> int" where
  "ilog2 x = (if 1 \<le> x then int (bitLength (nat \<lfloor>x\<rfloor>)) - 1
              else - int (bitLength (nat (\<lceil>1 / x\<rceil> - 1))))"

definition pow2 :: "int \<Rightarrow> real" where
  "pow2 e = (if 0 \<le> e then 2 ^ nat e else 1 / 2 ^ nat (- e))"

definition roundHalfEven :: "real \<Rightarrow> int" where
  "roundHalfEven y =
     (let f = \<lfloor>y\<rfloor>; d = y - of_int f
      in if d < 1 / 2 then f else if 1 / 2 < d then f + 1 else if even f then f else f + 1)"

definition fl :: "real \<Rightarrow> real" where
  "fl x = (if x = 0 then 0
           else (let e = max (ilog2 \<bar>x\<bar> - 52) (- 1074)
                 in of_int (roundHalfEven (x / pow2 e)) * pow2 e))"

definition toDouble :: "number \<Rightarrow> number" where
  "toDouble n =
     (case n of
        Num x \<Rightarrow>
          (let y = fl x
           in if pow2 1024 \<le> \<bar>y\<bar> then (if 0 < y then PosInf else NegInf) else Num y)
      | _ \<Rightarrow> n)"

definition jsAdd :: "number \<Rightarrow> number \<Rightarrow> number" where
  "jsAdd x y = toDouble (x + y)"

definition jsSub :: "number \<Rightarrow> number \<Rightarrow> number" where
  "jsSub x y = toDouble (x - y)"

text \<open>Truthiness (\<open>!x\<close> is its negation): \<open>0\<close> and \<open>NaN\<close> are falsy numbers, the empty
  string is the falsy string, \<open>undefined\<close> (\<open>None\<close>) is falsy.\<close>

fun truthy_number :: "number \<Rightarrow> bool" where
  "truthy_number (Num a) = (a \<noteq> 0)"
| "truthy_number NaN = False"
| "truthy_number _ = True"

definition truthy_string :: "string \<Rightarrow> bool" where
  "truthy_string s = (s \<noteq> [])"

fun truthy_opt :: "('a \<Rightarrow> bool) \<Rightarrow> 'a option \<Rightarrow> bool" where
  "truthy_opt t None = False"
| "truthy_opt t (Some x) = t x"

section \<open>String operations\<close>

text \<open>
  Strings are byte lists. \<open>toLowerCase\<close> is modelled on the ASCII letters and \<open>trim\<close> on
  the ASCII white space and line terminators (tab, line feed, vertical tab, form feed,
  carriage return, space); the other Unicode cases are outside the model.
\<close>

definition toLowerCase_char :: "char \<Rightarrow> char" where
  "toLowerCase_char c =
     (case map_of (zip ''ABCDEFGHIJKLMNOPQRSTUVWXYZ'' ''abcdefghijklmnopqrstuvwxyz'') c of
        Some l \<Rightarrow> l
      | None \<Rightarrow> c)"

definition toLowerCase :: "string \<Rightarrow> string" where
  "toLowerCase s = map toLowerCase_char s"

text \<open>\<open>s.includes(t)\<close>: \<open>t\<close> occurs in \<open>s\<close> as a contiguous substring.\<close>

fun includes_str :: "string \<Rightarrow> string \<Rightarrow> bool" where
  "includes_str [] t = (t = [])"
| "includes_str (c # s) t = (prefix t (c # s) \<or> includes_str s t)"

definition isWhiteSpace :: "char \<Rightarrow> bool" where
  "isWhiteSpace c = (c \<in> set [CHR 0x09, CHR 0x0A, CHR 0x0B, CHR 0x0C, CHR 0x0D, CHR '' ''])"

definition trimStart :: "string \<Rightarrow> string" where
  "trimStart s = dropWhile isWhiteSpace s"

definition trim :: "string \<Rightarrow> string" where
  "trim s = rev (dropWhile isWhiteSpace (rev (dropWhile isWhiteSpace s)))"

text \<open>\<open>s.split(sep)\<close> for a one-character separator: always at least one piece.\<close>

fun split_str :: "char \<Rightarrow> string \<Rightarrow> string list" where
  "split_str sep [] = [[]]"
| "split_str sep (c # s) =
     (if c = sep then [] # split_str sep s
      else (case split_str sep s of
              p # ps \<Rightarrow> (c # p) # ps
            | [] \<Rightarrow> [[c]]))"

text \<open>Decimal rendering of a non-negative integer (\<open>n + ''\<close>).\<close>

fun string_of_nat :: "nat \<Rightarrow> string" where
  "string_of_nat n =
     (if n < 10 then [''0123456789'' ! n]
      else string_of_nat (n div 10) @ [''0123456789'' ! (n mod 10)])"

declare string_of_nat.simps [simp del]

text \<open>\<open>arr.findIndex(pred)\<close>: the index of the first element satisfying \<open>pred\<close>;
  \<open>None\<close> stands for the result \<open>-1\<close>.\<close>

fun findIndex :: "('a \<Rightarrow> bool) \<Rightarrow> 'a list \<Rightarrow> nat option" where
  "findIndex pred [] = None"
| "findIndex pred (x # xs) =
     (if pred x then Some 0 else map_option Suc (findIndex pred xs))"

section \<open>Data model (types.ts)\<close>

text \<open>
  \<open>TransactionType\<close> is a string enum; at run time its members are the strings below,
  and a field of that type holds whatever string was cast into it. Record fields carry
  a prefix (\<open>a_\<close>, \<open>t_\<close>, \<open>p_\<close>, \<open>tf_\<close>) because several interfaces share field names.
  Optional fields that none of the modelled functions reads or writes are left out.
\<close>

definition EXPENSE :: string where "EXPENSE = ''EXPENSE''"
definition INCOME :: string where "INCOME = ''INCOME''"
definition INVESTMENT :: string where "INVESTMENT = ''INVESTMENT''"

record Account =
  a_id :: string
  a_userId :: string
  a_name :: string
  a_type :: string
  a_balance :: number

record Transaction =
  t_id :: string
  t_date :: string
  t_description :: string
  t_amount :: number
  t_type :: string
  t_category :: string
  t_subCategory :: string
  t_accountId :: string

record ParsedTransactionData =
  p_id :: "string option"
  p_date :: "string option"
  p_description :: string
  p_amount :: number
  p_type :: string
  p_category :: string
  p_subCategory :: string
  p_accountNameMatch :: string
  p_isDuplicate :: "bool option"
  p_duplicateWarning :: "string option"

record TransferData =
  tf_from :: "string option"
  tf_to :: "string option"
  tf_amount :: "number option"

text \<open>The part of the component state of \<open>App\<close> that the modelled handlers touch.\<close>

record AppState =
  accounts :: "Account list"
  transactions :: "Transaction list"
  previewData :: "ParsedTransactionData list option"
  inputText :: string
  entryMode :: string
  activeTab :: string
  transferData :: TransferData
  editingTransaction :: "Transaction option"

datatype error = TypeError

section \<open>confirmTransactions (App.tsx)\<close>

text \<open>
  The clock is a parameter: \<open>now i\<close> is what \<open>Date.now()\<close> returns in iteration \<open>i\<close> of
  the \<open>forEach\<close>, \<open>isoNow i\<close> what \<open>new Date().toISOString()\<close> returns there.

  \<open>resolveIndex\<close> is the index expression of lines 215-216: the first account whose
  lower-cased name includes the lower-cased hint, and index 0 when there is none.
\<close>

definition resolveIndex :: "Account list \<Rightarrow> ParsedTransactionData \<Rightarrow> nat" where
  "resolveIndex updatedAccounts p =
     (case findIndex (\<lambda>a. includes_str (toLowerCase (a_name a))
                                        (toLowerCase (p_accountNameMatch p)))
                     updatedAccounts of
        Some accIdx \<Rightarrow> accIdx
      | None \<Rightarrow> 0)"

text \<open>
  One iteration of the \<open>forEach\<close> body. \<open>updatedAccounts[k]\<close> is \<open>undefined\<close> when the
  array is empty, and reading \<open>acc.id\<close> then throws a \<open>TypeError\<close> before anything is
  written. Otherwise the account object is updated in place and the transaction is
  pushed.
\<close>

definition confirmStep ::
  "(nat \<Rightarrow> nat) \<Rightarrow> (nat \<Rightarrow> string) \<Rightarrow> Account list \<Rightarrow> ParsedTransactionData \<Rightarrow> nat
     \<Rightarrow> error + (Account list \<times> Transaction)" where
  "confirmStep now isoNow updatedAccounts p i =
     (let k = resolveIndex updatedAccounts p in
      if k < length updatedAccounts then
        (let acc = updatedAccounts ! k;
             tx = \<lparr> t_id = string_of_nat (now i + i),
                    t_date = (if truthy_opt truthy_string (p_date p) then the (p_date p) else isoNow i),
                    t_description = p_description p,
                    t_amount = p_amount p,
                    t_type = p_type p,
                    t_category = p_category p,
                    t_subCategory = p_subCategory p,
                    t_accountId = a_id acc \<rparr>;
             acc' = (if t_type tx = INCOME
                     then acc\<lparr> a_balance := a_balance acc + t_amount tx \<rparr>
                     else acc\<lparr> a_balance := a_balance acc - t_amount tx \<rparr>)
         in Inr (updatedAccounts[k := acc'], tx))
      else Inl TypeError)"

text \<open>
  The \<open>forEach\<close> loop. A throw leaves the account objects as they are at that moment:
  \<open>updatedAccounts\<close> is a shallow copy, so its elements are the objects of the
  \<open>accounts\<close> state and the in-place updates made so far stay visible. The loop
  therefore returns the accounts also when it fails.
\<close>

fun confirmLoop ::
  "(nat \<Rightarrow> nat) \<Rightarrow> (nat \<Rightarrow> string) \<Rightarrow> ParsedTransactionData list \<Rightarrow> nat
     \<Rightarrow> Account list \<Rightarrow> Transaction list
     \<Rightarrow> error option \<times> Account list \<times> Transaction list" where
  "confirmLoop now isoNow [] i updatedAccounts newTxs = (None, updatedAccounts, newTxs)"
| "confirmLoop now isoNow (p # ps) i updatedAccounts newTxs =
     (case confirmStep now isoNow updatedAccounts p i of
        Inl e \<Rightarrow> (Some e, updatedAccounts, newTxs)
      | Inr (updatedAccounts', tx) \<Rightarrow>
          confirmLoop now isoNow ps (Suc i) updatedAccounts' (newTxs @ [tx]))"

text \<open>
  \<open>confirmTransactions\<close>: \<open>Inr\<close> is a normal return with the new state, \<open>Inl\<close> an
  uncaught exception together with the state it leaves behind (no setter has run).
\<close>

definition confirmTransactions ::
  "(nat \<Rightarrow> nat) \<Rightarrow> (nat \<Rightarrow> string) \<Rightarrow> AppState \<Rightarrow> (error \<times> AppState) + AppState" where
  "confirmTransactions now isoNow s =
     (case previewData s of
        None \<Rightarrow> Inr s
      | Some batch \<Rightarrow>
          (case confirmLoop now isoNow batch 0 (accounts s) [] of
             (Some e, accs, newTxs) \<Rightarrow> Inl (e, s\<lparr> accounts := accs \<rparr>)
           | (None, updatedAccounts, newTxs) \<Rightarrow>
               Inr (s\<lparr> transactions := newTxs @ transactions s,
                       accounts := updatedAccounts,
                       previewData := None,
                       inputText := [],
                       entryMode := ''ai'',
                       activeTab := ''history'' \<rparr>)))"

section \<open>deleteAccount, handleTransfer and the ledger buttons (App.tsx)\<close>

text \<open>\<open>deleteAccount\<close>: \<open>confirmed\<close> is the answer of the \<open>confirm\<close> dialog.\<close>

definition deleteAccount :: "bool \<Rightarrow> string \<Rightarrow> AppState \<Rightarrow> AppState" where
  "deleteAccount confirmed ident s =
     (if confirmed
      then s\<lparr> accounts := filter (\<lambda>a. a_id a \<noteq> ident) (accounts s),
              transactions := filter (\<lambda>t. t_accountId t \<noteq> ident) (transactions s) \<rparr>
      else s)"

text \<open>The separator of the description template, with the bytes the source file stores.\<close>

definition arrow :: string where
  "arrow = [CHR 0xC3, CHR 0xA2, CHR 0xE2, CHR 0x80, CHR 0xA0, CHR 0xE2, CHR 0x80, CHR 0x99]"

text \<open>
  \<open>handleTransfer\<close>: \<open>now\<close> is \<open>Date.now()\<close>, \<open>isoNow\<close> is \<open>new Date().toISOString()\<close>.
  The guard returns on a missing or empty selection and on a missing, zero or \<open>NaN\<close>
  amount. In the \<open>map\<close> the test for the source account comes first. The arithmetic
  is a parameter: \<open>sub\<close> stands for the program's \<open>-\<close> and \<open>add\<close> for its \<open>+\<close>, so
  that what is proved for every \<open>add\<close> and \<open>sub\<close> holds for the rounding operations
  \<open>jsAdd\<close> and \<open>jsSub\<close> in particular.
\<close>

definition handleTransfer ::
  "(number \<Rightarrow> number \<Rightarrow> number) \<Rightarrow> (number \<Rightarrow> number \<Rightarrow> number)
     \<Rightarrow> nat \<Rightarrow> string \<Rightarrow> AppState \<Rightarrow> AppState" where
  "handleTransfer add sub now isoNow s =
     (let td = transferData s in
      if \<not> truthy_opt truthy_string (tf_from td) \<or> \<not> truthy_opt truthy_string (tf_to td)
         \<or> \<not> truthy_opt truthy_number (tf_amount td)
      then s
      else
        (case find (\<lambda>a. a_id a = the (tf_from td)) (accounts s) of
           None \<Rightarrow> s
         | Some fromAcc \<Rightarrow>
             (case find (\<lambda>a. a_id a = the (tf_to td)) (accounts s) of
                None \<Rightarrow> s
              | Some toAcc \<Rightarrow>
                  s\<lparr> accounts :=
                        map (\<lambda>a. if a_id a = a_id fromAcc
                                  then a\<lparr> a_balance := sub (a_balance a) (the (tf_amount td)) \<rparr>
                                  else if a_id a = a_id toAcc
                                  then a\<lparr> a_balance := add (a_balance a) (the (tf_amount td)) \<rparr>
                                  else a)
                            (accounts s),
                      transactions :=
                        \<lparr> t_id = string_of_nat now,
                          t_date = isoNow,
                          t_description =
                            ''Transfer: '' @ a_name fromAcc @ '' '' @ arrow @ '' '' @ a_name toAcc,
                          t_amount = the (tf_amount td),
                          t_type = EXPENSE,
                          t_category = ''Transfer'',
                          t_subCategory = ''Internal'',
                          t_accountId = a_id fromAcc \<rparr> # transactions s,
                      transferData := \<lparr> tf_from = None, tf_to = None, tf_amount = None \<rparr>,
                      activeTab := ''dashboard'' \<rparr>)))"

text \<open>The delete button of a ledger row (line 814): only the ledger is filtered.\<close>

definition deleteTransaction :: "string \<Rightarrow> AppState \<Rightarrow> AppState" where
  "deleteTransaction ident s =
     s\<lparr> transactions := filter (\<lambda>x. t_id x \<noteq> ident) (transactions s) \<rparr>"

text \<open>
  The \<open>Commit Change\<close> button of the edit modal (line 831): the entry with the same id is
  replaced by the edited copy. The modal is rendered only while \<open>editingTransaction\<close> is
  set.
\<close>

definition commitChange :: "AppState \<Rightarrow> AppState" where
  "commitChange s =
     (case editingTransaction s of
        None \<Rightarrow> s
      | Some edited \<Rightarrow>
          s\<lparr> transactions := map (\<lambda>x. if t_id x = t_id edited then edited else x) (transactions s),
              editingTransaction := None \<rparr>)"

section \<open>handleBulkImport (App.tsx)\<close>

text \<open>
  \<open>parseFloat\<close>: leading white space is skipped, then the longest prefix that is a
  decimal literal (sign, digits, fraction, exponent, or \<open>Infinity\<close>) gives the value
  (\<open>decimalValue\<close>, the exact one), which is rounded to the nearest double; without
  such a prefix the result is \<open>NaN\<close>.
\<close>

definition isDigit :: "char \<Rightarrow> bool" where
  "isDigit c = (c \<in> set ''0123456789'')"

definition digitsValue :: "string \<Rightarrow> nat" where
  "digitsValue ds = foldl (\<lambda>v c. 10 * v + (of_char c - 48)) 0 ds"

definition pow10 :: "int \<Rightarrow> real" where
  "pow10 e = (if 0 \<le> e then 10 ^ nat e else 1 / 10 ^ nat (- e))"

definition parseExponent :: "string \<Rightarrow> int" where
  "parseExponent s =
     (if s \<noteq> [] \<and> (hd s = CHR ''e'' \<or> hd s = CHR ''E'') then
        (let r = tl s;
             neg = (r \<noteq> [] \<and> hd r = CHR ''-'');
             r' = (if r \<noteq> [] \<and> (hd r = CHR ''-'' \<or> hd r = CHR ''+'') then tl r else r);
             ds = takeWhile isDigit r'
         in if ds = [] then 0
            else if neg then - int (digitsValue ds) else int (digitsValue ds))
      else 0)"

definition decimalValue :: "string \<Rightarrow> number" where
  "decimalValue str =
     (let s = trimStart str;
          neg = (s \<noteq> [] \<and> hd s = CHR ''-'');
          s1 = (if s \<noteq> [] \<and> (hd s = CHR ''-'' \<or> hd s = CHR ''+'') then tl s else s)
      in if prefix ''Infinity'' s1 then (if neg then NegInf else PosInf)
         else
           (let ip = takeWhile isDigit s1;
                r1 = dropWhile isDigit s1;
                hasDot = (r1 \<noteq> [] \<and> hd r1 = CHR ''.'');
                fp = (if hasDot then takeWhile isDigit (tl r1) else []);
                r2 = (if hasDot then dropWhile isDigit (tl r1) else r1)
            in if ip = [] \<and> fp = [] then NaN
               else
                 (let v = (real (digitsValue ip) + real (digitsValue fp) / 10 ^ length fp)
                          * pow10 (parseExponent r2)
                  in Num (if neg then - v else v))))"

definition parseFloat :: "string \<Rightarrow> number" where
  "parseFloat str = toDouble (decimalValue str)"

text \<open>
  The loop over \<open>lines[1..]\<close>. \<open>rnd k\<close> is the id that
  \<open>Math.random().toString(36).substr(2, 9)\<close> produces for the \<open>k\<close>-th pushed row.
\<close>

fun importLoop ::
  "(nat \<Rightarrow> string) \<Rightarrow> string list \<Rightarrow> ParsedTransactionData list \<Rightarrow> ParsedTransactionData list" where
  "importLoop rnd [] results = results"
| "importLoop rnd (line # rest) results =
     (let parts = split_str CHR '','' line in
      if length parts \<ge> 6 then
        importLoop rnd rest
          (results @
             [\<lparr> p_id = Some (rnd (length results)),
                p_date = Some (parts ! 0),
                p_description = parts ! 1,
                p_amount = parseFloat (parts ! 2),
                p_type = parts ! 3,
                p_category = parts ! 4,
                p_subCategory = ''Imported'',
                p_accountNameMatch = trim (parts ! 5),
                p_isDuplicate = None,
                p_duplicateWarning = None \<rparr>])
      else importLoop rnd rest results)"

text \<open>
  \<open>handleBulkImport\<close>: \<open>file\<close> is the text of the selected file, \<open>None\<close> when no file was
  selected. The file reader's callback is run at once.
\<close>

definition handleBulkImport :: "(nat \<Rightarrow> string) \<Rightarrow> string option \<Rightarrow> AppState \<Rightarrow> AppState" where
  "handleBulkImport rnd file s =
     (case file of
        None \<Rightarrow> s
      | Some text \<Rightarrow>
          s\<lparr> previewData := Some (importLoop rnd (drop 1 (split_str CHR 0x0A text)) []),
              entryMode := ''import'',
              activeTab := ''input'' \<rparr>)"

section \<open>parseNaturalLanguageInput (geminiService.ts) and processSmartEntry (App.tsx)\<close>

text \<open>
  The extraction service is a parameter. A request is the \<open>contents\<close> sent and whether a
  \<open>responseSchema\<close> is attached; \<open>generateContent\<close> either rejects or resolves to a
  response whose \<open>text\<close> may be undefined. \<open>JSON.parse\<close> is a parameter too: it throws or
  returns a value, which is an array or something else; the elements are taken at the
  declared type \<open>ParsedTransactionData\<close>, as the unchecked cast of the source does.
  The prompt (the template literal of lines 22-40) is passed in as built. Construction
  of the client is taken to succeed here; \<open>parseNaturalLanguageInputAI\<close> below adds
  its failure.
\<close>

record request =
  contents :: string
  responseSchema :: bool

datatype response = Rejects | Response "string option"

datatype syntax_error = SyntaxError

datatype 'a parsed = IsArray "'a list" | NotArray 'a

fun wrapArray :: "'a parsed \<Rightarrow> 'a list" where
  "wrapArray (IsArray xs) = xs"
| "wrapArray (NotArray x) = [x]"

definition fallbackSuffix :: string where
  "fallbackSuffix =
     [CHR 0x0A, CHR 0x0A] @ ''IMPORTANT: Return strictly a valid JSON array of objects.''"

text \<open>
  The inner \<open>try\<close> of the \<open>catch\<close> block: one relaxed request; every failure ends in
  \<open>return null\<close>. The second component is the list of requests issued so far.
\<close>

definition fallbackAttempt ::
  "(request \<Rightarrow> response) \<Rightarrow> (string \<Rightarrow> syntax_error + 'a parsed) \<Rightarrow> string \<Rightarrow> request list
     \<Rightarrow> 'a list option \<times> request list" where
  "fallbackAttempt generateContent JSON_parse prompt issued =
     (let req = \<lparr> contents = prompt @ fallbackSuffix, responseSchema = False \<rparr> in
      case generateContent req of
        Rejects \<Rightarrow> (None, issued @ [req])
      | Response txt \<Rightarrow>
          if truthy_opt truthy_string txt then
            (case JSON_parse (trim (the txt)) of
               Inl e \<Rightarrow> (None, issued @ [req])
             | Inr parsed \<Rightarrow> (Some (wrapArray parsed), issued @ [req]))
          else (None, issued @ [req]))"

definition parseNaturalLanguageInput ::
  "(request \<Rightarrow> response) \<Rightarrow> (string \<Rightarrow> syntax_error + 'a parsed) \<Rightarrow> string
     \<Rightarrow> 'a list option \<times> request list" where
  "parseNaturalLanguageInput generateContent JSON_parse prompt =
     (let req = \<lparr> contents = prompt, responseSchema = True \<rparr> in
      case generateContent req of
        Rejects \<Rightarrow> fallbackAttempt generateContent JSON_parse prompt [req]
      | Response txt \<Rightarrow>
          if truthy_opt truthy_string txt then
            (case JSON_parse (trim (the txt)) of
               Inl e \<Rightarrow> fallbackAttempt generateContent JSON_parse prompt [req]
             | Inr parsed \<Rightarrow> (Some (wrapArray parsed), [req]))
          else (Some [], [req]))"

text \<open>
  \<open>processSmartEntry\<close>: \<open>promptOf\<close> builds the prompt from the input text and the
  accounts; \<open>rnd k\<close> is the staging id drawn for the \<open>k\<close>-th result.
\<close>

definition processSmartEntry ::
  "(request \<Rightarrow> response) \<Rightarrow> (string \<Rightarrow> syntax_error + ParsedTransactionData parsed)
     \<Rightarrow> (string \<Rightarrow> Account list \<Rightarrow> string) \<Rightarrow> (nat \<Rightarrow> string) \<Rightarrow> AppState \<Rightarrow> AppState" where
  "processSmartEntry generateContent JSON_parse promptOf rnd s =
     (if \<not> truthy_string (trim (inputText s)) then s
      else
        (case fst (parseNaturalLanguageInput generateContent JSON_parse
                     (promptOf (inputText s) (accounts s))) of
           Some results \<Rightarrow>
             s\<lparr> previewData := Some (map (\<lambda>(k, r). r\<lparr> p_id := Some (rnd k) \<rparr>) (enumerate 0 results)) \<rparr>
         | None \<Rightarrow> s))"

section \<open>The handlers on run-time values\<close>

text \<open>
  The commit and the extraction above take their input at the declared types, and the
  commit computes with the exact \<open>+\<close> and \<open>-\<close>. The versions of this section lift
  these idealisations.
  \<^item> The arithmetic is a parameter: \<open>add\<close> stands for the program's \<open>+\<close> and \<open>sub\<close> for
    its \<open>-\<close>. What is proved for every \<open>add\<close> and \<open>sub\<close> holds for the rounding
    operations \<open>jsAdd\<close> and \<open>jsSub\<close> in particular.
  \<^item> A staged candidate is what the extraction service returned, cast to
    \<open>ParsedTransactionData\<close> without a check (App.tsx line 165); the fallback answer is
    not validated against a schema, so the account hint can be missing.
    \<open>c_accountNameMatch = None\<close> says that the field is missing or not a string; then
    \<open>p.accountNameMatch.toLowerCase()\<close> throws a \<open>TypeError\<close> inside the first call of the
    \<open>findIndex\<close> callback, and with an empty directory, where the callback is never
    called, \<open>acc.id\<close> throws it. The other fields are taken at their declared types.
  \<^item> The client is constructed outside the \<open>try\<close> of \<open>parseNaturalLanguageInput\<close>; when
    \<open>getAI\<close> throws, the exception leaves the function and is caught by the \<open>catch\<close>
    of \<open>processSmartEntry\<close>.
  On typed input, with the exact arithmetic and a client they are the handlers above.
\<close>

record StagedCandidate =
  c_id :: "string option"
  c_date :: "string option"
  c_description :: string
  c_amount :: number
  c_type :: string
  c_category :: string
  c_subCategory :: string
  c_accountNameMatch :: "string option"
  c_isDuplicate :: "bool option"
  c_duplicateWarning :: "string option"

definition runtimeOf :: "ParsedTransactionData \<Rightarrow> StagedCandidate" where
  "runtimeOf p =
     \<lparr> c_id = p_id p, c_date = p_date p, c_description = p_description p,
       c_amount = p_amount p, c_type = p_type p, c_category = p_category p,
       c_subCategory = p_subCategory p, c_accountNameMatch = Some (p_accountNameMatch p),
       c_isDuplicate = p_isDuplicate p, c_duplicateWarning = p_duplicateWarning p \<rparr>"

definition resolveHint :: "Account list \<Rightarrow> string \<Rightarrow> nat" where
  "resolveHint updatedAccounts hint =
     (case findIndex (\<lambda>a. includes_str (toLowerCase (a_name a)) (toLowerCase hint))
                     updatedAccounts of
        Some accIdx \<Rightarrow> accIdx
      | None \<Rightarrow> 0)"

definition confirmStepRT ::
  "(number \<Rightarrow> number \<Rightarrow> number) \<Rightarrow> (number \<Rightarrow> number \<Rightarrow> number)
     \<Rightarrow> (nat \<Rightarrow> nat) \<Rightarrow> (nat \<Rightarrow> string) \<Rightarrow> Account list \<Rightarrow> StagedCandidate \<Rightarrow> nat
     \<Rightarrow> error + (Account list \<times> Transaction)" where
  "confirmStepRT add sub now isoNow updatedAccounts p i =
     (case c_accountNameMatch p of
        None \<Rightarrow> Inl TypeError
      | Some hint \<Rightarrow>
          (let k = resolveHint updatedAccounts hint in
           if k < length updatedAccounts then
             (let acc = updatedAccounts ! k;
                  tx = \<lparr> t_id = string_of_nat (now i + i),
                         t_date = (if truthy_opt truthy_string (c_date p) then the (c_date p)
                                   else isoNow i),
                         t_description = c_description p,
                         t_amount = c_amount p,
                         t_type = c_type p,
                         t_category = c_category p,
                         t_subCategory = c_subCategory p,
                         t_accountId = a_id acc \<rparr>;
                  acc' = (if t_type tx = INCOME
                          then acc\<lparr> a_balance := add (a_balance acc) (t_amount tx) \<rparr>
                          else acc\<lparr> a_balance := sub (a_balance acc) (t_amount tx) \<rparr>)
              in Inr (updatedAccounts[k := acc'], tx))
           else Inl TypeError))"

fun confirmLoopRT ::
  "(number \<Rightarrow> number \<Rightarrow> number) \<Rightarrow> (number \<Rightarrow> number \<Rightarrow> number)
     \<Rightarrow> (nat \<Rightarrow> nat) \<Rightarrow> (nat \<Rightarrow> string) \<Rightarrow> StagedCandidate list \<Rightarrow> nat
     \<Rightarrow> Account list \<Rightarrow> Transaction list
     \<Rightarrow> error option \<times> Account list \<times> Transaction list" where
  "confirmLoopRT add sub now isoNow [] i updatedAccounts newTxs = (None, updatedAccounts, newTxs)"
| "confirmLoopRT add sub now isoNow (p # ps) i updatedAccounts newTxs =
     (case confirmStepRT add sub now isoNow updatedAccounts p i of
        Inl e \<Rightarrow> (Some e, updatedAccounts, newTxs)
      | Inr (updatedAccounts', tx) \<Rightarrow>
          confirmLoopRT add sub now isoNow ps (Suc i) updatedAccounts' (newTxs @ [tx]))"

text \<open>
  \<open>staged\<close> is the run-time value of the \<open>previewData\<close> state. As before, \<open>Inl\<close> is an
  uncaught exception together with the state it leaves behind: no setter has run, and
  the account objects keep the in-place updates made before the throw.
\<close>

definition confirmTransactionsRT ::
  "(number \<Rightarrow> number \<Rightarrow> number) \<Rightarrow> (number \<Rightarrow> number \<Rightarrow> number)
     \<Rightarrow> (nat \<Rightarrow> nat) \<Rightarrow> (nat \<Rightarrow> string) \<Rightarrow> StagedCandidate list option \<Rightarrow> AppState
     \<Rightarrow> (error \<times> AppState) + AppState" where
  "confirmTransactionsRT add sub now isoNow staged s =
     (case staged of
        None \<Rightarrow> Inr s
      | Some batch \<Rightarrow>
          (case confirmLoopRT add sub now isoNow batch 0 (accounts s) [] of
             (Some e, accs, newTxs) \<Rightarrow> Inl (e, s\<lparr> accounts := accs \<rparr>)
           | (None, updatedAccounts, newTxs) \<Rightarrow>
               Inr (s\<lparr> transactions := newTxs @ transactions s,
                       accounts := updatedAccounts,
                       previewData := None,
                       inputText := [],
                       entryMode := ''ai'',
                       activeTab := ''history'' \<rparr>)))"

text \<open>
  \<open>getAI\<close> is the outcome of \<open>new GoogleGenAI(...)\<close>: it throws, or it yields the client
  whose \<open>generateContent\<close> the two attempts call. \<open>Inl\<close> is the exception leaving
  \<open>parseNaturalLanguageInput\<close>; \<open>processSmartEntry\<close> catches it, shows an alert and
  leaves the state as it is.
\<close>

datatype client_error = ClientError

definition parseNaturalLanguageInputAI ::
  "client_error + (request \<Rightarrow> response) \<Rightarrow> (string \<Rightarrow> syntax_error + 'a parsed) \<Rightarrow> string
     \<Rightarrow> client_error + ('a list option \<times> request list)" where
  "parseNaturalLanguageInputAI getAI JSON_parse prompt =
     (case getAI of
        Inl e \<Rightarrow> Inl e
      | Inr generateContent \<Rightarrow> Inr (parseNaturalLanguageInput generateContent JSON_parse prompt))"

definition processSmartEntryAI ::
  "client_error + (request \<Rightarrow> response)
     \<Rightarrow> (string \<Rightarrow> syntax_error + ParsedTransactionData parsed)
     \<Rightarrow> (string \<Rightarrow> Account list \<Rightarrow> string) \<Rightarrow> (nat \<Rightarrow> string) \<Rightarrow> AppState \<Rightarrow> AppState" where
  "processSmartEntryAI getAI JSON_parse promptOf rnd s =
     (if \<not> truthy_string (trim (inputText s)) then s
      else
        (case parseNaturalLanguageInputAI getAI JSON_parse (promptOf (inputText s) (accounts s)) of
           Inl e \<Rightarrow> s
         | Inr (Some results, issued) \<Rightarrow>
             s\<lparr> previewData := Some (map (\<lambda>(k, r). r\<lparr> p_id := Some (rnd k) \<rparr>) (enumerate 0 results)) \<rparr>
         | Inr (None, issued) \<Rightarrow> s))"

section \<open>Derived notions used in the statements\<close>

text \<open>The signed delta of a candidate and of a ledger entry, as \<open>confirmTransactions\<close>
  applies it: \<open>+amount\<close> for \<open>INCOME\<close>, \<open>-amount\<close> for every other type.\<close>

definition signedDelta :: "ParsedTransactionData \<Rightarrow> number" where
  "signedDelta p = (if p_type p = INCOME then p_amount p else - p_amount p)"

definition txDelta :: "Transaction \<Rightarrow> number" where
  "txDelta t = (if t_type t = INCOME then t_amount t else - t_amount t)"

text \<open>The test of line 215: the lower-cased account name includes the lower-cased hint.\<close>

definition nameIncludesHint :: "string \<Rightarrow> Account \<Rightarrow> bool" where
  "nameIncludesHint hint a = includes_str (toLowerCase (a_name a)) (toLowerCase hint)"

text \<open>The transaction that iteration \<open>i\<close> builds for candidate \<open>p\<close> against account \<open>acc\<close>.\<close>

definition txOf ::
  "(nat \<Rightarrow> nat) \<Rightarrow> (nat \<Rightarrow> string) \<Rightarrow> Account \<Rightarrow> ParsedTransactionData \<Rightarrow> nat \<Rightarrow> Transaction" where
  "txOf now isoNow acc p i =
     \<lparr> t_id = string_of_nat (now i + i),
       t_date = (if truthy_opt truthy_string (p_date p) then the (p_date p) else isoNow i),
       t_description = p_description p,
       t_amount = p_amount p,
       t_type = p_type p,
       t_category = p_category p,
       t_subCategory = p_subCategory p,
       t_accountId = a_id acc \<rparr>"

text \<open>The effect of one iteration on the accounts: the resolved account receives the
  candidate's signed delta.\<close>

definition credit :: "Account list \<Rightarrow> ParsedTransactionData \<Rightarrow> Account list" where
  "credit accs p =
     accs[resolveIndex accs p :=
            (accs ! resolveIndex accs p)
              \<lparr> a_balance := a_balance (accs ! resolveIndex accs p) + signedDelta p \<rparr>]"

text \<open>
  The same notions for the commit on run-time values: a candidate \<open>hasHint\<close> when its
  account hint is a string; it \<open>resolvesTo\<close> index \<open>k\<close> when line 215 and 216 pick the
  account at \<open>k\<close> for it; \<open>applyDelta\<close> is the \<open>+=\<close> or \<open>-=\<close> of lines 227 and 228 on a
  balance; \<open>txOfRT\<close> and \<open>creditRT\<close> are the entry built and the effect on the accounts
  of one iteration; \<open>ledgerEntry\<close> is the entry built for the candidate at a position
  of the batch.
\<close>

definition hasHint :: "StagedCandidate \<Rightarrow> bool" where
  "hasHint p = (c_accountNameMatch p \<noteq> None)"

definition resolvesTo :: "Account list \<Rightarrow> nat \<Rightarrow> StagedCandidate \<Rightarrow> bool" where
  "resolvesTo accs k p =
     (case c_accountNameMatch p of
        None \<Rightarrow> False
      | Some hint \<Rightarrow> resolveHint accs hint = k)"

definition applyDelta ::
  "(number \<Rightarrow> number \<Rightarrow> number) \<Rightarrow> (number \<Rightarrow> number \<Rightarrow> number) \<Rightarrow> number \<Rightarrow> StagedCandidate
     \<Rightarrow> number" where
  "applyDelta add sub b p = (if c_type p = INCOME then add b (c_amount p) else sub b (c_amount p))"

definition txOfRT ::
  "(nat \<Rightarrow> nat) \<Rightarrow> (nat \<Rightarrow> string) \<Rightarrow> Account \<Rightarrow> StagedCandidate \<Rightarrow> nat \<Rightarrow> Transaction" where
  "txOfRT now isoNow acc p i =
     \<lparr> t_id = string_of_nat (now i + i),
       t_date = (if truthy_opt truthy_string (c_date p) then the (c_date p) else isoNow i),
       t_description = c_description p,
       t_amount = c_amount p,
       t_type = c_type p,
       t_category = c_category p,
       t_subCategory = c_subCategory p,
       t_accountId = a_id acc \<rparr>"

definition creditRT ::
  "(number \<Rightarrow> number \<Rightarrow> number) \<Rightarrow> (number \<Rightarrow> number \<Rightarrow> number) \<Rightarrow> Account list
     \<Rightarrow> StagedCandidate \<Rightarrow> Account list" where
  "creditRT add sub accs p =
     (case c_accountNameMatch p of
        None \<Rightarrow> accs
      | Some hint \<Rightarrow>
          accs[resolveHint accs hint :=
                 (accs ! resolveHint accs hint)
                   \<lparr> a_balance := applyDelta add sub (a_balance (accs ! resolveHint accs hint)) p \<rparr>])"

definition ledgerEntry ::
  "(nat \<Rightarrow> nat) \<Rightarrow> (nat \<Rightarrow> string) \<Rightarrow> Account list \<Rightarrow> nat \<times> StagedCandidate \<Rightarrow> Transaction" where
  "ledgerEntry now isoNow accs jp =
     txOfRT now isoNow (accs ! resolveHint accs (the (c_accountNameMatch (snd jp)))) (snd jp) (fst jp)"

text \<open>The rows that \<open>handleBulkImport\<close> accepts, and the candidate it pushes for the
  \<open>k\<close>-th accepted row.\<close>

definition acceptedRows :: "string list \<Rightarrow> string list" where
  "acceptedRows lines = filter (\<lambda>line. 6 \<le> length (split_str CHR '','' line)) lines"

definition candidateOfRow :: "(nat \<Rightarrow> string) \<Rightarrow> nat \<Rightarrow> string \<Rightarrow> ParsedTransactionData" where
  "candidateOfRow rnd k line =
     (let parts = split_str CHR '','' line in
      \<lparr> p_id = Some (rnd k),
        p_date = Some (parts ! 0),
        p_description = parts ! 1,
        p_amount = parseFloat (parts ! 2),
        p_type = parts ! 3,
        p_category = parts ! 4,
        p_subCategory = ''Imported'',
        p_accountNameMatch = trim (parts ! 5),
        p_isDuplicate = None,
        p_duplicateWarning = None \<rparr>)"

text \<open>
  The two requests of \<open>parseNaturalLanguageInput\<close>. An attempt \<open>throws\<close> when control
  leaves its \<open>try\<close> block by an exception: the request rejects, or the returned text is
  non-empty and \<open>JSON.parse\<close> throws on it. It has \<open>noText\<close> when the response carries
  no text or the empty text.
\<close>

definition primaryRequest :: "string \<Rightarrow> request" where
  "primaryRequest prompt = \<lparr> contents = prompt, responseSchema = True \<rparr>"

definition fallbackRequest :: "string \<Rightarrow> request" where
  "fallbackRequest prompt = \<lparr> contents = prompt @ fallbackSuffix, responseSchema = False \<rparr>"

definition throws ::
  "(request \<Rightarrow> response) \<Rightarrow> (string \<Rightarrow> syntax_error + 'a parsed) \<Rightarrow> request \<Rightarrow> bool" where
  "throws generateContent JSON_parse req =
     (case generateContent req of
        Rejects \<Rightarrow> True
      | Response txt \<Rightarrow> truthy_opt truthy_string txt \<and> isl (JSON_parse (trim (the txt))))"

definition noText :: "(request \<Rightarrow> response) \<Rightarrow> request \<Rightarrow> bool" where
  "noText generateContent req =
     (case generateContent req of
        Rejects \<Rightarrow> False
      | Response txt \<Rightarrow> \<not> truthy_opt truthy_string txt)"

text \<open>
  The invariant of the data model, in the words of the specification: every account's
  balance is its opening balance plus the signed deltas of the ledger entries recorded
  against it. \<open>opening\<close> gives the opening balance by account id.
\<close>

definition spec_balance_invariant :: "(string \<Rightarrow> number) \<Rightarrow> AppState \<Rightarrow> bool" where
  "spec_balance_invariant opening s =
     list_all (\<lambda>a. a_balance a =
                     opening (a_id a)
                     + sum_list (map txDelta (filter (\<lambda>t. t_accountId t = a_id a) (transactions s))))
              (accounts s)"

section \<open>Example data\<close>

text \<open>\<open>INITIAL_ACCOUNTS\<close> of App.tsx, the state the component starts in, and the header
  line of the CSV template.\<close>

definition hdfc :: Account where
  "hdfc = \<lparr> a_id = ''1'', a_userId = ''u1'', a_name = ''HDFC Savings'', a_type = ''SAVINGS'',
            a_balance = Num 50000 \<rparr>"

definition cashWallet :: Account where
  "cashWallet = \<lparr> a_id = ''2'', a_userId = ''u1'', a_name = ''Cash Wallet'', a_type = ''WALLET'',
                  a_balance = Num 2000 \<rparr>"

definition INITIAL_ACCOUNTS :: "Account list" where
  "INITIAL_ACCOUNTS = [hdfc, cashWallet]"

definition initialState :: AppState where
  "initialState =
     \<lparr> accounts = INITIAL_ACCOUNTS, transactions = [], previewData = None,
       inputText = [], entryMode = ''ai'', activeTab = ''dashboard'',
       transferData = \<lparr> tf_from = None, tf_to = None, tf_amount = None \<rparr>,
       editingTransaction = None \<rparr>"

definition openingBalance :: "string \<Rightarrow> number" where
  "openingBalance ident = (if ident = ''1'' then Num 50000 else Num 2000)"

definition csvHeader :: string where
  "csvHeader = ''Date,Description,Amount,Type,Category,AccountName''"

text \<open>A clock that stands still and a generator of staging ids.\<close>

definition clockMs :: "nat \<Rightarrow> nat" where
  "clockMs i = 1698192000000"

definition clockIso :: "nat \<Rightarrow> string" where
  "clockIso i = ''2023-10-25T00:00:00.000Z''"

definition stagingId :: "nat \<Rightarrow> string" where
  "stagingId k = ''row'' @ string_of_nat k"

text \<open>Candidates: the first data row of the CSV template, and variations of it.\<close>

definition coffee :: ParsedTransactionData where
  "coffee = \<lparr> p_id = Some ''k3x9q0a1b'', p_date = Some ''2023-10-25'', p_description = ''Coffee'',
              p_amount = Num 250, p_type = EXPENSE, p_category = ''Beverages'',
              p_subCategory = ''Imported'', p_accountNameMatch = ''Cash Wallet'',
              p_isDuplicate = None, p_duplicateWarning = None \<rparr>"

definition salary :: ParsedTransactionData where
  "salary = \<lparr> p_id = Some ''m2n8p4c7d'', p_date = None, p_description = ''Salary'',
              p_amount = Num 85000, p_type = INCOME, p_category = ''Income'',
              p_subCategory = ''Salary'', p_accountNameMatch = ''hdfc'',
              p_isDuplicate = None, p_duplicateWarning = None \<rparr>"

definition snack :: ParsedTransactionData where
  "snack = coffee\<lparr> p_description := ''Snack'', p_accountNameMatch := ''SAV'' \<rparr>"

definition taxi :: ParsedTransactionData where
  "taxi = coffee\<lparr> p_description := ''Taxi'', p_accountNameMatch := ''Petty Cash'' \<rparr>"

definition fee :: ParsedTransactionData where
  "fee = coffee\<lparr> p_description := ''Fee'', p_accountNameMatch := ''HDFC Savings Account'' \<rparr>"

definition flaggedCoffee :: ParsedTransactionData where
  "flaggedCoffee = coffee\<lparr> p_id := None, p_isDuplicate := Some True,
                            p_duplicateWarning := Some ''Possible duplicate'' \<rparr>"

text \<open>
  Two small expenses against \<open>HDFC Savings\<close> whose amounts are not binary fractions, and
  what the extraction service can return in place of \<open>salary\<close>: the same object without
  the account hint.
\<close>

definition tea :: ParsedTransactionData where
  "tea = coffee\<lparr> p_description := ''Tea'', p_amount := parseFloat ''0.1'',
                  p_accountNameMatch := ''HDFC Savings'' \<rparr>"

definition gum :: ParsedTransactionData where
  "gum = coffee\<lparr> p_description := ''Gum'', p_amount := parseFloat ''0.2'',
                  p_accountNameMatch := ''HDFC Savings'' \<rparr>"

definition noHintSalary :: StagedCandidate where
  "noHintSalary = (runtimeOf salary)\<lparr> c_accountNameMatch := None \<rparr>"

text \<open>An account whose name contains the name of \<open>Cash Wallet\<close>.\<close>

definition pettyCashWallet :: Account where
  "pettyCashWallet = \<lparr> a_id = ''3'', a_userId = ''u1'', a_name = ''Petty Cash Wallet'',
                       a_type = ''WALLET'', a_balance = Num 300 \<rparr>"

text \<open>Two accounts holding a tenth each, and the state in which a transfer has been
  filled in.\<close>

definition purse :: Account where
  "purse = \<lparr> a_id = ''3'', a_userId = ''u1'', a_name = ''Purse'', a_type = ''WALLET'',
             a_balance = parseFloat ''0.1'' \<rparr>"

definition jar :: Account where
  "jar = \<lparr> a_id = ''4'', a_userId = ''u1'', a_name = ''Jar'', a_type = ''WALLET'',
           a_balance = parseFloat ''0.1'' \<rparr>"

definition transferState :: "Account list \<Rightarrow> string \<Rightarrow> string \<Rightarrow> number \<Rightarrow> AppState" where
  "transferState accs x y amt =
     initialState\<lparr> accounts := accs,
                   transferData := \<lparr> tf_from = Some x, tf_to = Some y, tf_amount = Some amt \<rparr> \<rparr>"

text \<open>Ledger entries, and the state after the commit of \<open>coffee\<close> from the initial state.\<close>

definition groceries :: Transaction where
  "groceries = \<lparr> t_id = ''1704412800000'', t_date = ''2024-01-05'',
                 t_description = ''Grocery Shopping'', t_amount = Num 1200, t_type = EXPENSE,
                 t_category = ''Produce'', t_subCategory = ''Veg'', t_accountId = ''1'' \<rparr>"

definition coffeeTx :: Transaction where
  "coffeeTx = \<lparr> t_id = ''1698192000000'', t_date = ''2023-10-25'', t_description = ''Coffee'',
                t_amount = Num 250, t_type = EXPENSE, t_category = ''Beverages'',
                t_subCategory = ''Imported'', t_accountId = ''2'' \<rparr>"

definition afterCoffee :: AppState where
  "afterCoffee =
     \<lparr> accounts = [hdfc, cashWallet\<lparr> a_balance := Num 1750 \<rparr>], transactions = [coffeeTx],
       previewData = None, inputText = [], entryMode = ''ai'', activeTab = ''history'',
       transferData = \<lparr> tf_from = None, tf_to = None, tf_amount = None \<rparr>,
       editingTransaction = None \<rparr>"

text \<open>
  Extraction services and a parser for them: one that answers the primary request with
  an array, one that is unreachable, one whose primary answer does not parse and whose
  fallback answer is a single object, one that rejects the primary request and
  answers the fallback without text, and one that answers every request without text.
\<close>

definition parseExample :: "string \<Rightarrow> syntax_error + ParsedTransactionData parsed" where
  "parseExample txt =
     (if txt = ''ARRAY'' then Inr (IsArray [salary, flaggedCoffee])
      else if txt = ''OBJECT'' then Inr (NotArray salary)
      else Inl SyntaxError)"

definition serviceArray :: "request \<Rightarrow> response" where
  "serviceArray req = Response (Some '' ARRAY '')"

definition serviceDown :: "request \<Rightarrow> response" where
  "serviceDown req = Rejects"

definition serviceMalformed :: "request \<Rightarrow> response" where
  "serviceMalformed req =
     (if responseSchema req then Response (Some ''[{'') else Response (Some ''OBJECT''))"

definition serviceSilent :: "request \<Rightarrow> response" where
  "serviceSilent req = (if responseSchema req then Rejects else Response None)"

definition serviceMute :: "request \<Rightarrow> response" where
  "serviceMute req = Response None"

definition examplePrompt :: "string \<Rightarrow> Account list \<Rightarrow> string" where
  "examplePrompt input accs = ''Input: '' @ input"

definition typedState :: AppState where
  "typedState = initialState\<lparr> inputText := ''salary 85000 and coffee 250'' \<rparr>"

section \<open>Lemmas about the list operations and the commit loop\<close>

lemma findIndex_Some_iff:
  "findIndex pred xs = Some k \<longleftrightarrow> k < length xs \<and> pred (xs ! k) \<and> (\<forall>j<k. \<not> pred (xs ! j))"
proof (induction xs arbitrary: k)
  case Nil
  then show ?case by simp
next
  case (Cons x xs)
  show ?case
  proof (cases "pred x")
    case True
    then show ?thesis by (cases k) auto
  next
    case False
    show ?thesis
    proof (cases k)
      case 0
      with False show ?thesis by auto
    next
      case (Suc m)
      have "(\<forall>j<Suc m. \<not> pred ((x # xs) ! j)) \<longleftrightarrow> (\<forall>j<m. \<not> pred (xs ! j))"
        using False by (auto simp: less_Suc_eq_0_disj)
      with False Suc Cons.IH [of m] show ?thesis by auto
    qed
  qed
qed

lemma findIndex_None_iff: "findIndex pred xs = None \<longleftrightarrow> (\<forall>x\<in>set xs. \<not> pred x)"
  by (induction xs) auto

lemma findIndex_map: "findIndex pred (map f xs) = findIndex (\<lambda>x. pred (f x)) xs"
  by (induction xs) auto

lemma resolveIndex_names:
  "resolveIndex accs p =
     (case findIndex (\<lambda>n. includes_str (toLowerCase n) (toLowerCase (p_accountNameMatch p)))
                     (map a_name accs) of Some k \<Rightarrow> k | None \<Rightarrow> 0)"
  by (simp add: resolveIndex_def findIndex_map)

lemma resolveIndex_cong:
  "map a_name accs' = map a_name accs \<Longrightarrow> resolveIndex accs' p = resolveIndex accs p"
  by (simp add: resolveIndex_names)

lemma resolveIndex_less: "accs \<noteq> [] \<Longrightarrow> resolveIndex accs p < length accs"
  by (auto simp: resolveIndex_def findIndex_Some_iff split: option.splits)

lemma confirmStep_Inr:
  assumes "accs \<noteq> []"
  shows "confirmStep now isoNow accs p i =
           Inr (accs[resolveIndex accs p :=
                       (accs ! resolveIndex accs p)
                         \<lparr> a_balance := a_balance (accs ! resolveIndex accs p) + signedDelta p \<rparr>],
                txOf now isoNow (accs ! resolveIndex accs p) p i)"
  using resolveIndex_less [OF assms, of p]
  by (simp add: confirmStep_def Let_def signedDelta_def txOf_def minus_number_def)

lemma confirmStep_empty: "confirmStep now isoNow [] p i = Inl TypeError"
  by (simp add: confirmStep_def)

lemma map_update_same: "(map f xs)[k := f (xs ! k)] = map f xs"
  by (induction xs arbitrary: k) (auto split: nat.splits)

lemma credit_length [simp]: "length (credit accs p) = length accs"
  by (simp add: credit_def)

lemma credit_names [simp]: "map a_name (credit accs p) = map a_name accs"
  by (simp add: credit_def map_update map_update_same)

lemma credit_ids [simp]: "map a_id (credit accs p) = map a_id accs"
  by (simp add: credit_def map_update map_update_same)

lemma credit_nonempty [simp]: "credit accs p = [] \<longleftrightarrow> accs = []"
  by (simp add: credit_def)

lemma fold_credit_length [simp]: "length (fold (\<lambda>p a. credit a p) batch accs) = length accs"
  by (induction batch arbitrary: accs) simp_all

lemma fold_credit_names [simp]: "map a_name (fold (\<lambda>p a. credit a p) batch accs) = map a_name accs"
  by (induction batch arbitrary: accs) simp_all

lemma fold_credit_ids [simp]: "map a_id (fold (\<lambda>p a. credit a p) batch accs) = map a_id accs"
  by (induction batch arbitrary: accs) simp_all

lemma credit_resolveIndex [simp]: "resolveIndex (credit accs q) p = resolveIndex accs p"
  by (rule resolveIndex_cong) simp

lemma txOf_cong: "a_id a = a_id b \<Longrightarrow> txOf now isoNow a p i = txOf now isoNow b p i"
  by (simp add: txOf_def)

lemma credit_nth_id: "k < length accs \<Longrightarrow> a_id (credit accs q ! k) = a_id (accs ! k)"
  using credit_ids [of accs q] by (metis credit_length nth_map)

lemma confirmLoop_eq:
  "accs \<noteq> [] \<Longrightarrow>
   confirmLoop now isoNow batch i accs txs =
     (None, fold (\<lambda>p a. credit a p) batch accs,
      txs @ map (\<lambda>(j, p). txOf now isoNow (accs ! resolveIndex accs p) p j) (enumerate i batch))"
proof (induction batch arbitrary: i accs txs)
  case Nil
  then show ?case by simp
next
  case (Cons q batch)
  have ne: "credit accs q \<noteq> []" using Cons.prems by simp
  have tx: "txOf now isoNow (credit accs q ! resolveIndex accs p) p j
            = txOf now isoNow (accs ! resolveIndex accs p) p j" for p j
    by (rule txOf_cong) (simp add: credit_nth_id resolveIndex_less Cons.prems)
  show ?case
    using Cons.IH [OF ne, of "Suc i" "txs @ [txOf now isoNow (accs ! resolveIndex accs q) q i]"]
    by (simp add: confirmStep_Inr [OF Cons.prems] credit_def [symmetric] tx)
qed

lemma confirmTransactions_nonempty:
  assumes "previewData s = Some batch" and "accounts s \<noteq> []"
  shows "confirmTransactions now isoNow s =
           Inr (s\<lparr> transactions :=
                     map (\<lambda>(j, p). txOf now isoNow (accounts s ! resolveIndex (accounts s) p) p j)
                         (enumerate 0 batch) @ transactions s,
                   accounts := fold (\<lambda>p a. credit a p) batch (accounts s),
                   previewData := None, inputText := [], entryMode := ''ai'',
                   activeTab := ''history'' \<rparr>)"
  using assms by (simp add: confirmTransactions_def confirmLoop_eq)

lemma confirmLoop_empty_accounts:
  "batch \<noteq> [] \<Longrightarrow> confirmLoop now isoNow batch i [] txs = (Some TypeError, [], txs)"
  by (cases batch) (simp_all add: confirmStep_empty)

lemma txOf_enumerate_amounts:
  "map t_amount (map (\<lambda>(j, p). txOf now isoNow (f p) p j) (enumerate i batch)) = map p_amount batch"
  by (induction batch arbitrary: i) (simp_all add: txOf_def)

lemma txOf_enumerate_types:
  "map t_type (map (\<lambda>(j, p). txOf now isoNow (f p) p j) (enumerate i batch)) = map p_type batch"
  by (induction batch arbitrary: i) (simp_all add: txOf_def)

section \<open>Lemmas about the commit on run-time values\<close>

lemma resolveHint_names:
  "resolveHint accs hint =
     (case findIndex (\<lambda>n. includes_str (toLowerCase n) (toLowerCase hint)) (map a_name accs) of
        Some k \<Rightarrow> k | None \<Rightarrow> 0)"
  by (simp add: resolveHint_def findIndex_map)

lemma resolveHint_cong:
  "map a_name accs' = map a_name accs \<Longrightarrow> resolveHint accs' hint = resolveHint accs hint"
  by (simp add: resolveHint_names)

lemma resolveHint_less: "accs \<noteq> [] \<Longrightarrow> resolveHint accs hint < length accs"
  by (auto simp: resolveHint_def findIndex_Some_iff split: option.splits)

lemma resolveIndex_resolveHint: "resolveIndex accs p = resolveHint accs (p_accountNameMatch p)"
  by (simp add: resolveIndex_def resolveHint_def)

lemma resolveHint_no_match:
  assumes "\<forall>a\<in>set accs. \<not> nameIncludesHint hint a"
  shows "resolveHint accs hint = 0"
proof -
  from assms have "findIndex (nameIncludesHint hint) accs = None"
    by (simp add: findIndex_None_iff)
  then show ?thesis by (simp add: resolveHint_def nameIncludesHint_def [abs_def])
qed

lemma confirmStepRT_Inr:
  assumes "accs \<noteq> []" and "c_accountNameMatch p = Some hint"
  shows "confirmStepRT add sub now isoNow accs p i =
           Inr (creditRT add sub accs p, txOfRT now isoNow (accs ! resolveHint accs hint) p i)"
  using resolveHint_less [OF assms(1), of hint] assms(2)
  by (simp add: confirmStepRT_def Let_def creditRT_def applyDelta_def txOfRT_def)

lemma confirmStepRT_no_hint:
  "c_accountNameMatch p = None \<Longrightarrow> confirmStepRT add sub now isoNow accs p i = Inl TypeError"
  by (simp add: confirmStepRT_def)

lemma confirmStepRT_empty: "confirmStepRT add sub now isoNow [] p i = Inl TypeError"
  by (simp add: confirmStepRT_def split: option.splits)

lemma creditRT_length [simp]: "length (creditRT add sub accs p) = length accs"
  by (simp add: creditRT_def split: option.splits)

lemma creditRT_names [simp]: "map a_name (creditRT add sub accs p) = map a_name accs"
  by (simp add: creditRT_def map_update map_update_same split: option.splits)

lemma creditRT_ids [simp]: "map a_id (creditRT add sub accs p) = map a_id accs"
  by (simp add: creditRT_def map_update map_update_same split: option.splits)

lemma creditRT_nonempty [simp]: "creditRT add sub accs p = [] \<longleftrightarrow> accs = []"
  by (simp add: creditRT_def split: option.splits)

lemma creditRT_resolveHint [simp]:
  "resolveHint (creditRT add sub accs q) hint = resolveHint accs hint"
  by (rule resolveHint_cong) simp

lemma creditRT_resolvesTo [simp]:
  "resolvesTo (creditRT add sub accs q) k p = resolvesTo accs k p"
  by (simp add: resolvesTo_def split: option.splits)

lemma creditRT_nth_id:
  "k < length accs \<Longrightarrow> a_id (creditRT add sub accs q ! k) = a_id (accs ! k)"
  using creditRT_ids [of add sub accs q] by (metis creditRT_length nth_map)

lemma creditRT_balance:
  "k < length accs \<Longrightarrow>
   a_balance (creditRT add sub accs p ! k) =
     (if resolvesTo accs k p then applyDelta add sub (a_balance (accs ! k)) p
      else a_balance (accs ! k))"
  by (auto simp add: creditRT_def resolvesTo_def nth_list_update split: option.splits)

lemma txOfRT_cong: "a_id a = a_id b \<Longrightarrow> txOfRT now isoNow a p i = txOfRT now isoNow b p i"
  by (simp add: txOfRT_def)

lemma confirmLoopRT_eq:
  "accs \<noteq> [] \<Longrightarrow> list_all hasHint batch \<Longrightarrow>
   confirmLoopRT add sub now isoNow batch i accs txs =
     (None, fold (\<lambda>p a. creditRT add sub a p) batch accs,
      txs @ map (ledgerEntry now isoNow accs) (enumerate i batch))"
proof (induction batch arbitrary: i accs txs)
  case Nil
  then show ?case by simp
next
  case (Cons q batch)
  from Cons.prems obtain hint where h: "c_accountNameMatch q = Some hint"
    by (auto simp: hasHint_def)
  have ne: "creditRT add sub accs q \<noteq> []" using Cons.prems by simp
  have rest: "list_all hasHint batch" using Cons.prems by simp
  have entry: "ledgerEntry now isoNow (creditRT add sub accs q) jp = ledgerEntry now isoNow accs jp"
    for jp
    unfolding ledgerEntry_def
    by (rule txOfRT_cong) (simp add: creditRT_nth_id resolveHint_less Cons.prems)
  then have entry': "ledgerEntry now isoNow (creditRT add sub accs q) = ledgerEntry now isoNow accs"
    by (rule ext)
  have first: "ledgerEntry now isoNow accs (i, q) = txOfRT now isoNow (accs ! resolveHint accs hint) q i"
    by (simp add: ledgerEntry_def h)
  show ?case
    using Cons.IH [OF ne rest, of "Suc i" "txs @ [txOfRT now isoNow (accs ! resolveHint accs hint) q i]"]
    by (simp add: confirmStepRT_Inr [OF Cons.prems(1) h] entry' first)
qed

lemma fold_creditRT_ids [simp]:
  "map a_id (fold (\<lambda>p a. creditRT add sub a p) batch accs) = map a_id accs"
  by (induction batch arbitrary: accs) simp_all

lemma fold_creditRT_length [simp]:
  "length (fold (\<lambda>p a. creditRT add sub a p) batch accs) = length accs"
  by (induction batch arbitrary: accs) simp_all

lemma fold_creditRT_balance:
  "k < length accs \<Longrightarrow>
   a_balance (fold (\<lambda>p a. creditRT add sub a p) batch accs ! k) =
     foldl (applyDelta add sub) (a_balance (accs ! k)) (filter (resolvesTo accs k) batch)"
proof (induction batch arbitrary: accs)
  case Nil
  then show ?case by simp
next
  case (Cons q batch)
  have "k < length (creditRT add sub accs q)" using Cons.prems by simp
  from Cons.IH [OF this] show ?case
    by (simp add: creditRT_balance Cons.prems)
qed

lemma confirmLoopRT_empty_accounts:
  "batch \<noteq> [] \<Longrightarrow> confirmLoopRT add sub now isoNow batch i [] txs = (Some TypeError, [], txs)"
  by (cases batch) (simp_all add: confirmStepRT_empty)

lemma confirmTransactionsRT_ok:
  assumes "accounts s \<noteq> []" and "list_all hasHint batch"
  shows "confirmTransactionsRT add sub now isoNow (Some batch) s =
           Inr (s\<lparr> transactions :=
                     map (ledgerEntry now isoNow (accounts s)) (enumerate 0 batch) @ transactions s,
                   accounts := fold (\<lambda>p a. creditRT add sub a p) batch (accounts s),
                   previewData := None, inputText := [], entryMode := ''ai'',
                   activeTab := ''history'' \<rparr>)"
  using assms by (simp add: confirmTransactionsRT_def confirmLoopRT_eq)

lemma confirmTransactionsRT_empty_batch:
  "confirmTransactionsRT add sub now isoNow (Some []) s =
     Inr (s\<lparr> transactions := transactions s, accounts := accounts s,
             previewData := None, inputText := [], entryMode := ''ai'',
             activeTab := ''history'' \<rparr>)"
  by (simp add: confirmTransactionsRT_def)

text \<open>Agreement with the typed handlers.\<close>

lemma confirmStepRT_typed:
  "confirmStepRT (+) (-) now isoNow accs (runtimeOf p) i = confirmStep now isoNow accs p i"
  by (simp add: confirmStepRT_def confirmStep_def runtimeOf_def resolveIndex_resolveHint Let_def)

lemma confirmLoopRT_typed:
  "confirmLoopRT (+) (-) now isoNow (map runtimeOf batch) i accs txs
     = confirmLoop now isoNow batch i accs txs"
  by (induction batch arbitrary: i accs txs)
     (simp_all add: confirmStepRT_typed split: sum.splits)

lemma confirmTransactionsRT_typed:
  "confirmTransactionsRT (+) (-) now isoNow (map_option (map runtimeOf) (previewData s)) s
     = confirmTransactions now isoNow s"
  by (cases "previewData s")
     (simp_all add: confirmTransactionsRT_def confirmTransactions_def confirmLoopRT_typed)

lemma processSmartEntryAI_client:
  "processSmartEntryAI (Inr generateContent) JSON_parse promptOf rnd s
     = processSmartEntry generateContent JSON_parse promptOf rnd s"
  by (simp add: processSmartEntryAI_def processSmartEntry_def parseNaturalLanguageInputAI_def
      split: prod.splits option.splits)


lemma ledgerEntries_nth:
  "j < length batch \<Longrightarrow> c_accountNameMatch (batch ! j) = Some hint \<Longrightarrow>
   t_accountId (map (ledgerEntry now isoNow accs) (enumerate i batch) ! j)
     = a_id (accs ! resolveHint accs hint)"
  by (simp add: nth_enumerate_eq ledgerEntry_def txOfRT_def)

section \<open>Lemmas about account resolution\<close>

lemma includes_str_iff: "includes_str s t \<longleftrightarrow> (\<exists>ps ss. s = ps @ t @ ss)"
proof (induction s)
  case Nil
  then show ?case by simp
next
  case (Cons c s)
  have "includes_str (c # s) t \<longleftrightarrow> prefix t (c # s) \<or> sublist t s"
    using Cons.IH by (simp add: sublist_def)
  also have "\<dots> \<longleftrightarrow> sublist t (c # s)"
    by (simp add: sublist_Cons_right)
  finally show ?case by (simp add: sublist_def)
qed

lemma resolveIndex_match:
  assumes "\<exists>a\<in>set accs. nameIncludesHint (p_accountNameMatch p) a"
  shows "resolveIndex accs p < length accs
         \<and> nameIncludesHint (p_accountNameMatch p) (accs ! resolveIndex accs p)
         \<and> (\<forall>j<resolveIndex accs p. \<not> nameIncludesHint (p_accountNameMatch p) (accs ! j))"
proof -
  from assms have "findIndex (nameIncludesHint (p_accountNameMatch p)) accs \<noteq> None"
    by (simp add: findIndex_None_iff)
  then obtain k where k: "findIndex (nameIncludesHint (p_accountNameMatch p)) accs = Some k"
    by blast
  then have "resolveIndex accs p = k"
    by (simp add: resolveIndex_def nameIncludesHint_def [abs_def])
  with k show ?thesis by (simp add: findIndex_Some_iff)
qed

lemma resolveIndex_no_match:
  assumes "\<forall>a\<in>set accs. \<not> nameIncludesHint (p_accountNameMatch p) a"
  shows "resolveIndex accs p = 0"
proof -
  from assms have "findIndex (nameIncludesHint (p_accountNameMatch p)) accs = None"
    by (simp add: findIndex_None_iff)
  then show ?thesis by (simp add: resolveIndex_def nameIncludesHint_def [abs_def])
qed

lemma resolveIndex_first_match:
  assumes "k < length accs" and "nameIncludesHint (p_accountNameMatch p) (accs ! k)"
    and "\<forall>j<k. \<not> nameIncludesHint (p_accountNameMatch p) (accs ! j)"
  shows "resolveIndex accs p = k"
proof -
  have "findIndex (nameIncludesHint (p_accountNameMatch p)) accs = Some k"
    using assms by (simp add: findIndex_Some_iff)
  then show ?thesis by (simp add: resolveIndex_def nameIncludesHint_def [abs_def])
qed

lemma nameIncludesHint_same: "a_name a = hint \<Longrightarrow> nameIncludesHint hint a"
  by (auto simp add: nameIncludesHint_def includes_str_iff intro: exI [of _ "[]"])

section \<open>Lemmas about the transfer\<close>

lemma find_distinct:
  "distinct (map f xs) \<Longrightarrow> x \<in> set xs \<Longrightarrow> find (\<lambda>a. f a = f x) xs = Some x"
  by (induction xs) (auto simp: rev_image_eqI)

lemma handleTransfer_eq:
  assumes "distinct (map a_id (accounts s))"
    and "X \<in> set (accounts s)" and "Y \<in> set (accounts s)"
    and "a_id X \<noteq> []" and "a_id Y \<noteq> []"
    and "transferData s = \<lparr> tf_from = Some (a_id X), tf_to = Some (a_id Y), tf_amount = Some amt \<rparr>"
    and "truthy_number amt"
  shows "handleTransfer add sub now isoNow s =
           s\<lparr> accounts := map (\<lambda>a. if a_id a = a_id X
                                     then a\<lparr> a_balance := sub (a_balance a) amt \<rparr>
                                     else if a_id a = a_id Y
                                     then a\<lparr> a_balance := add (a_balance a) amt \<rparr>
                                     else a) (accounts s),
               transactions :=
                 \<lparr> t_id = string_of_nat now, t_date = isoNow,
                   t_description = ''Transfer: '' @ a_name X @ '' '' @ arrow @ '' '' @ a_name Y,
                   t_amount = amt, t_type = EXPENSE, t_category = ''Transfer'',
                   t_subCategory = ''Internal'', t_accountId = a_id X \<rparr> # transactions s,
               transferData := \<lparr> tf_from = None, tf_to = None, tf_amount = None \<rparr>,
               activeTab := ''dashboard'' \<rparr>"
  using assms find_distinct [OF assms(1,2)] find_distinct [OF assms(1,3)]
  by (simp add: handleTransfer_def Let_def truthy_string_def)

lemma handleTransfer_ignored:
  assumes "tf_from (transferData s) \<in> {None, Some []}
           \<or> tf_to (transferData s) \<in> {None, Some []}
           \<or> tf_amount (transferData s) \<in> {None, Some (Num 0), Some NaN}"
  shows "handleTransfer add sub now isoNow s = s"
  using assms by (auto simp add: handleTransfer_def Let_def truthy_string_def)

lemma truthy_number_iff: "truthy_number A \<longleftrightarrow> A \<noteq> Num 0 \<and> A \<noteq> NaN"
  by (cases A) simp_all

section \<open>Lemmas about staging\<close>

lemma importLoop_eq:
  "importLoop rnd lines results =
     results @ map (\<lambda>(k, line). candidateOfRow rnd k line)
                   (enumerate (length results) (acceptedRows lines))"
proof (induction lines arbitrary: results)
  case Nil
  then show ?case by (simp add: acceptedRows_def)
next
  case (Cons line lines)
  show ?case
  proof (cases "6 \<le> length (split_str CHR '','' line)")
    case True
    then show ?thesis
      using Cons.IH [of "results @ [candidateOfRow rnd (length results) line]"]
      by (simp add: acceptedRows_def candidateOfRow_def Let_def)
  next
    case False
    then show ?thesis
      using Cons.IH [of results] by (simp add: acceptedRows_def Let_def)
  qed
qed

lemma split_str_nonempty: "split_str sep s \<noteq> []"
  by (induction s) (auto split: list.splits)

lemma split_str_header:
  "sep \<notin> set header \<Longrightarrow> split_str sep (header @ sep # rest) = header # split_str sep rest"
  by (induction header) (auto split: list.splits simp: split_str_nonempty)

lemma handleBulkImport_previewData:
  "previewData (handleBulkImport rnd (Some text) s) =
     Some (map (\<lambda>(k, line). candidateOfRow rnd k line)
               (enumerate 0 (acceptedRows (drop 1 (split_str CHR 0x0A text)))))"
  by (simp add: handleBulkImport_def importLoop_eq)

lemma candidateOfRow_flags:
  "p_isDuplicate (candidateOfRow rnd k line) = None
   \<and> p_duplicateWarning (candidateOfRow rnd k line) = None"
  by (simp add: candidateOfRow_def Let_def)

lemma staged_rows_flags:
  "list_all (\<lambda>p. p_isDuplicate p = None \<and> p_duplicateWarning p = None)
            (map (\<lambda>(k, line). candidateOfRow rnd k line) (enumerate i rows))"
  by (induction rows arbitrary: i) (simp_all add: candidateOfRow_flags)

lemma assign_ids_flags:
  "map p_isDuplicate (map (\<lambda>(k, r). r\<lparr> p_id := Some (rnd k) \<rparr>) (enumerate i results))
     = map p_isDuplicate results
   \<and> map p_duplicateWarning (map (\<lambda>(k, r). r\<lparr> p_id := Some (rnd k) \<rparr>) (enumerate i results))
     = map p_duplicateWarning results"
  by (induction results arbitrary: i) simp_all

section \<open>Lemmas about the extraction adapter\<close>

lemma fallbackAttempt_calls:
  "snd (fallbackAttempt generateContent JSON_parse prompt issued) = issued @ [fallbackRequest prompt]"
  by (simp add: fallbackAttempt_def fallbackRequest_def Let_def split: response.splits sum.splits)

lemma fallbackAttempt_result:
  "fst (fallbackAttempt generateContent JSON_parse prompt issued) =
     (case generateContent (fallbackRequest prompt) of
        Rejects \<Rightarrow> None
      | Response txt \<Rightarrow>
          if truthy_opt truthy_string txt
          then (case JSON_parse (trim (the txt)) of Inl e \<Rightarrow> None | Inr parsed \<Rightarrow> Some (wrapArray parsed))
          else None)"
  by (simp add: fallbackAttempt_def fallbackRequest_def Let_def split: response.splits sum.splits)

lemma parse_throws:
  "throws generateContent JSON_parse (primaryRequest prompt) \<Longrightarrow>
   parseNaturalLanguageInput generateContent JSON_parse prompt =
     fallbackAttempt generateContent JSON_parse prompt [primaryRequest prompt]"
  by (auto simp add: parseNaturalLanguageInput_def primaryRequest_def throws_def Let_def
      split: response.splits sum.splits)

lemma parse_no_throw:
  "\<not> throws generateContent JSON_parse (primaryRequest prompt) \<Longrightarrow>
   snd (parseNaturalLanguageInput generateContent JSON_parse prompt) = [primaryRequest prompt]
   \<and> fst (parseNaturalLanguageInput generateContent JSON_parse prompt) \<noteq> None"
  by (auto simp add: parseNaturalLanguageInput_def primaryRequest_def throws_def Let_def
      split: response.splits sum.splits)

lemma parse_no_text:
  "noText generateContent (primaryRequest prompt) \<Longrightarrow>
   parseNaturalLanguageInput generateContent JSON_parse prompt = (Some [], [primaryRequest prompt])"
  by (simp add: parseNaturalLanguageInput_def noText_def primaryRequest_def Let_def
      split: response.splits)

section \<open>Lemmas about deleting a ledger entry\<close>

lemma filter_other_ids:
  "t_id t \<notin> t_id ` set ts \<Longrightarrow> filter (\<lambda>u. t_id u \<noteq> t_id t) ts = ts"
  by (induction ts) auto

lemma sum_list_remove_entry:
  fixes f :: "Transaction \<Rightarrow> number"
  shows "distinct (map t_id ts) \<Longrightarrow> t \<in> set ts \<Longrightarrow> P t \<Longrightarrow>
         sum_list (map f (filter P ts)) =
           sum_list (map f (filter P (filter (\<lambda>u. t_id u \<noteq> t_id t) ts))) + f t"
proof (induction ts)
  case Nil
  then show ?case by simp
next
  case (Cons u ts)
  show ?case
  proof (cases "u = t")
    case True
    with Cons.prems have "t_id t \<notin> t_id ` set ts" by simp
    then have "filter (\<lambda>u. t_id u \<noteq> t_id t) ts = ts" by (rule filter_other_ids)
    with True Cons.prems(3) show ?thesis by (simp add: add.commute)
  next
    case False
    with Cons.prems have mem: "t \<in> set ts" and d: "distinct (map t_id ts)"
      and ne: "t_id u \<noteq> t_id t"
      by auto
    from Cons.IH [OF d mem Cons.prems(3)] ne show ?thesis
      by (simp add: add.assoc)
  qed
qed

lemma num_add_finite_cancel: "Num b = Num b + d \<Longrightarrow> d = Num x \<or> d = Num (- x) \<Longrightarrow> x = 0"
  by auto

lemma deleteTransaction_breaks_invariant:
  assumes inv: "spec_balance_invariant opening s"
    and d: "distinct (map t_id (transactions s))"
    and t: "t \<in> set (transactions s)"
    and a: "a \<in> set (accounts s)" "a_id a = t_accountId t"
    and fin: "a_balance a = Num b" "t_amount t = Num x" "x \<noteq> 0"
  shows "\<not> spec_balance_invariant opening (deleteTransaction (t_id t) s)"
proof
  assume inv': "spec_balance_invariant opening (deleteTransaction (t_id t) s)"
  let ?P = "\<lambda>u. t_accountId u = a_id a"
  let ?rest = "filter ?P (filter (\<lambda>u. t_id u \<noteq> t_id t) (transactions s))"
  from inv a(1) have before:
    "Num b = opening (a_id a) + sum_list (map txDelta (filter ?P (transactions s)))"
    by (simp add: spec_balance_invariant_def list_all_iff fin(1) [symmetric])
  from inv' a(1) have after: "Num b = opening (a_id a) + sum_list (map txDelta ?rest)"
    by (simp add: spec_balance_invariant_def list_all_iff deleteTransaction_def fin(1) [symmetric])
  have "sum_list (map txDelta (filter ?P (transactions s)))
          = sum_list (map txDelta ?rest) + txDelta t"
    by (rule sum_list_remove_entry [OF d t]) (simp add: a(2))
  with before have "Num b = (opening (a_id a) + sum_list (map txDelta ?rest)) + txDelta t"
    by (simp add: add.assoc)
  with after have "Num b = Num b + txDelta t" by simp
  moreover have "txDelta t = Num x \<or> txDelta t = Num (- x)"
    by (simp add: txDelta_def fin(2))
  ultimately have "x = 0" by (rule num_add_finite_cancel)
  with fin(3) show False by simp
qed

section \<open>Evaluation of the examples\<close>

lemmas example_defs =
  initialState_def INITIAL_ACCOUNTS_def hdfc_def cashWallet_def coffee_def
  clockMs_def clockIso_def csvHeader_def EXPENSE_def INCOME_def INVESTMENT_def

lemmas eval_defs =
  confirmTransactions_def confirmStep_def resolveIndex_def toLowerCase_def
  toLowerCase_char_def truthy_string_def minus_number_def deleteAccount_def

lemmas double_defs =
  toDouble_def fl_def ilog2_def pow2_def roundHalfEven_def bitLength.simps Let_def

lemma toDouble_examples:
  "toDouble (Num 250) = Num 250"
  "toDouble (Num (- 250)) = Num (- 250)"
  "toDouble (Num 1200) = Num 1200"
  "toDouble (Num 1500) = Num 1500"
  by (simp_all add: double_defs)

lemmas parse_defs =
  parseFloat_def decimalValue_def trimStart_def trim_def isWhiteSpace_def isDigit_def
  digitsValue_def pow10_def parseExponent_def toDouble_examples

text \<open>Amounts that are not binary fractions: the doubles that \<open>parseFloat\<close> returns,
  and the results of the program's operations on them.\<close>

lemmas decimal_defs =
  decimalValue_def trimStart_def trim_def isWhiteSpace_def isDigit_def
  digitsValue_def pow10_def parseExponent_def

lemma parseFloat_tenth: "parseFloat ''0.1'' = Num (3602879701896397 / 36028797018963968)"
  unfolding parseFloat_def by (simp add: decimal_defs) (simp add: double_defs)

lemma parseFloat_fifth: "parseFloat ''0.2'' = Num (3602879701896397 / 18014398509481984)"
  unfolding parseFloat_def by (simp add: decimal_defs) (simp add: double_defs)

lemma parseFloat_sequential:
  "parseFloat ''49999.700000000004'' = Num (6871906441913959 / 137438953472)"
  unfolding parseFloat_def by (simp add: decimal_defs) (simp add: double_defs)

lemma parseFloat_claimed: "parseFloat ''49999.7'' = Num (3435953220956979 / 68719476736)"
  unfolding parseFloat_def by (simp add: decimal_defs) (simp add: double_defs)

lemma jsSub_tea: "jsSub (Num 50000) (parseFloat ''0.1'') = Num (6871933929704653 / 137438953472)"
  by (simp add: parseFloat_tenth jsSub_def minus_number_def) (simp add: double_defs)

lemma jsSub_gum:
  "jsSub (Num (6871933929704653 / 137438953472)) (parseFloat ''0.2'')
     = parseFloat ''49999.700000000004''"
  by (simp add: parseFloat_fifth parseFloat_sequential jsSub_def minus_number_def)
     (simp add: double_defs)

lemma jsSub_coffee_wallet: "jsSub (Num 2000) (Num 250) = Num 1750"
  by (simp add: jsSub_def minus_number_def) (simp add: double_defs)

lemma jsSub_transfer: "jsSub (Num 50000) (Num 500) = Num 49500"
  by (simp add: jsSub_def minus_number_def) (simp add: double_defs)

lemma jsAdd_transfer: "jsAdd (Num 2000) (Num 500) = Num 2500"
  by (simp add: jsAdd_def) (simp add: double_defs)

lemma parseFloat_three_tenths:
  "parseFloat ''0.30000000000000004'' = Num (1351079888211149 / 4503599627370496)"
  unfolding parseFloat_def by (simp add: decimal_defs) (simp add: double_defs)

lemma parseFloat_two_tenths_up:
  "parseFloat ''0.20000000000000004'' = Num (7205759403792795 / 36028797018963968)"
  unfolding parseFloat_def by (simp add: decimal_defs) (simp add: double_defs)

lemma jsAdd_tenth_fifth: "jsAdd (parseFloat ''0.1'') (parseFloat ''0.2'') = parseFloat ''0.30000000000000004''"
  by (simp add: parseFloat_tenth parseFloat_fifth parseFloat_three_tenths jsAdd_def)
     (simp add: double_defs)

lemma jsSub_tenth_fifth: "jsSub (parseFloat ''0.1'') (parseFloat ''0.2'') = - parseFloat ''0.1''"
  by (simp add: parseFloat_tenth parseFloat_fifth jsSub_def minus_number_def)
     (simp add: double_defs)

lemma total_before:
  "foldl jsAdd (Num 0) [parseFloat ''0.1'', parseFloat ''0.1''] = parseFloat ''0.2''"
  by (simp add: parseFloat_tenth parseFloat_fifth jsAdd_def)
     (simp add: double_defs)

lemma total_after:
  "foldl jsAdd (Num 0) [- parseFloat ''0.1'', parseFloat ''0.30000000000000004'']
     = parseFloat ''0.20000000000000004''"
  by (simp add: parseFloat_tenth parseFloat_three_tenths parseFloat_two_tenths_up jsAdd_def)
     (simp add: double_defs)

lemma string_of_clock: "string_of_nat 1698192000000 = ''1698192000000''"
  by (simp add: string_of_nat.simps)

lemma eval_commit_after_delete:
  "confirmTransactions clockMs clockIso
     (deleteAccount True ''2'' (initialState\<lparr> previewData := Some [coffee] \<rparr>))
   = Inr \<lparr> accounts = [\<lparr> a_id = ''1'', a_userId = ''u1'', a_name = ''HDFC Savings'',
                           a_type = ''SAVINGS'', a_balance = Num 49750 \<rparr>],
           transactions = [\<lparr> t_id = ''1698192000000'', t_date = ''2023-10-25'',
                               t_description = ''Coffee'', t_amount = Num 250,
                               t_type = ''EXPENSE'', t_category = ''Beverages'',
                               t_subCategory = ''Imported'', t_accountId = ''1'' \<rparr>],
           previewData = None, inputText = [], entryMode = ''ai'', activeTab = ''history'',
           transferData = \<lparr> tf_from = None, tf_to = None, tf_amount = None \<rparr>,
           editingTransaction = None \<rparr>"
  by (simp add: example_defs eval_defs string_of_clock)

lemma eval_commit_coffee:
  "confirmTransactions clockMs clockIso (initialState\<lparr> previewData := Some [coffee] \<rparr>)
     = Inr afterCoffee"
  by (simp add: afterCoffee_def coffeeTx_def example_defs eval_defs string_of_clock)

lemma afterCoffee_invariant: "spec_balance_invariant openingBalance afterCoffee"
  by (simp add: spec_balance_invariant_def afterCoffee_def coffeeTx_def openingBalance_def
      txDelta_def hdfc_def cashWallet_def EXPENSE_def INCOME_def zero_number_def)

lemma eval_import_negative:
  "handleBulkImport stagingId
       (Some (csvHeader @ [CHR 0x0A] @ ''2023-10-25,Refund,-250,EXPENSE,Beverages,Cash Wallet''))
       initialState
   = initialState\<lparr> previewData :=
         Some [\<lparr> p_id = Some ''row0'', p_date = Some ''2023-10-25'', p_description = ''Refund'',
                  p_amount = Num (- 250), p_type = ''EXPENSE'', p_category = ''Beverages'',
                  p_subCategory = ''Imported'', p_accountNameMatch = ''Cash Wallet'',
                  p_isDuplicate = None, p_duplicateWarning = None \<rparr>],
       entryMode := ''import'', activeTab := ''input'' \<rparr>"
  by (simp add: example_defs handleBulkImport_def Let_def parse_defs stagingId_def
      string_of_nat.simps)

lemma eval_import_template_row:
  "previewData (handleBulkImport stagingId
       (Some (csvHeader @ [CHR 0x0A] @ ''2023-10-25,Coffee,250,EXPENSE,Beverages,Cash Wallet''))
       initialState)
   = Some [\<lparr> p_id = Some ''row0'', p_date = Some ''2023-10-25'', p_description = ''Coffee'',
              p_amount = Num 250, p_type = ''EXPENSE'', p_category = ''Beverages'',
              p_subCategory = ''Imported'', p_accountNameMatch = ''Cash Wallet'',
              p_isDuplicate = None, p_duplicateWarning = None \<rparr>]"
  by (simp add: example_defs handleBulkImport_def Let_def parse_defs stagingId_def
      string_of_nat.simps)

lemma resolve_coffee: "resolveIndex INITIAL_ACCOUNTS coffee = 1"
  by (simp add: example_defs resolveIndex_def toLowerCase_def toLowerCase_char_def)

lemma resolve_salary: "resolveIndex INITIAL_ACCOUNTS salary = 0"
  by (simp add: example_defs salary_def resolveIndex_def toLowerCase_def toLowerCase_char_def)

lemma eval_parse_serviceArray:
  "parseNaturalLanguageInput serviceArray parseExample prompt
     = (Some [salary, flaggedCoffee], [\<lparr> contents = prompt, responseSchema = True \<rparr>])"
  by (simp add: parseNaturalLanguageInput_def serviceArray_def parseExample_def truthy_string_def
      trim_def isWhiteSpace_def)

section \<open>The claims\<close>

text \<open>
  Claim C10. Committing a non-empty staging batch against an empty account directory
  reads the default account \<open>updatedAccounts[0]\<close>, which is undefined, and the handler
  ends with a \<open>TypeError\<close> instead of returning; no state setter has run.
\<close>

theorem confirmTransactions_empty_directory:
  assumes "accounts s = []" and "previewData s = Some batch" and "batch \<noteq> []"
  shows "confirmTransactions now isoNow s = Inl (TypeError, s)"
  using assms by (simp add: confirmTransactions_def confirmLoop_empty_accounts)

theorem confirmTransactions_empty_directory_witness:
  "accounts (initialState\<lparr> accounts := [], previewData := Some [coffee] \<rparr>) = []
   \<and> previewData (initialState\<lparr> accounts := [], previewData := Some [coffee] \<rparr>) = Some [coffee]
   \<and> [coffee] \<noteq> []
   \<and> confirmTransactions clockMs clockIso
         (initialState\<lparr> accounts := [], previewData := Some [coffee] \<rparr>)
       = Inl (TypeError, initialState\<lparr> accounts := [], previewData := Some [coffee] \<rparr>)"
  using confirmTransactions_empty_directory
          [of "initialState\<lparr> accounts := [], previewData := Some [coffee] \<rparr>" "[coffee]"
              clockMs clockIso]
  by simp

text \<open>
  Claim C8, as amended. Committing a batch of \<open>N\<close> valid candidates (the directory is not
  empty and every candidate carries an account hint), or an empty batch, returns
  normally; the ledger grows by exactly \<open>N\<close> entries, put in front of the old ones; the
  account at every index \<open>k\<close> ends with the balance obtained from its old balance by
  applying the signed deltas of the candidates resolved to \<open>k\<close> one at a time, in batch
  order, each with one \<open>+=\<close> or \<open>-=\<close> of the program's arithmetic; an empty batch leaves
  ledger and accounts as they were. In floating point the balance so obtained need not
  be the old balance plus the sum of the deltas.
\<close>

theorem confirmTransactionsRT_batch:
  assumes "(accounts s \<noteq> [] \<and> list_all hasHint batch) \<or> batch = []"
  shows "\<exists>s'. confirmTransactionsRT add sub now isoNow (Some batch) s = Inr s'
           \<and> (\<exists>newTxs. transactions s' = newTxs @ transactions s
                  \<and> length newTxs = length batch)
           \<and> map a_id (accounts s') = map a_id (accounts s)
           \<and> (\<forall>k<length (accounts s).
                 a_balance (accounts s' ! k) =
                   foldl (applyDelta add sub) (a_balance (accounts s ! k))
                         (filter (resolvesTo (accounts s) k) batch))
           \<and> (batch = [] \<longrightarrow> transactions s' = transactions s \<and> accounts s' = accounts s)"
proof (cases "batch = []")
  case True
  then show ?thesis
    by (simp add: confirmTransactionsRT_empty_batch)
next
  case False
  with assms have ne: "accounts s \<noteq> []" and hh: "list_all hasHint batch" by simp_all
  show ?thesis
    using False
    by (simp add: confirmTransactionsRT_ok [OF ne hh] fold_creditRT_balance)
qed

theorem confirmTransactionsRT_batch_witness:
  "accounts initialState \<noteq> [] \<and> list_all hasHint [runtimeOf tea, runtimeOf gum]
   \<and> (\<exists>s'. confirmTransactionsRT jsAdd jsSub clockMs clockIso
               (Some [runtimeOf tea, runtimeOf gum]) initialState = Inr s'
          \<and> length (transactions s') = 2
          \<and> a_balance (accounts s' ! 0) = parseFloat ''49999.700000000004''
          \<and> a_balance (accounts s' ! 1) = Num 2000)
   \<and> (\<exists>s'. confirmTransactionsRT jsAdd jsSub clockMs clockIso (Some []) initialState = Inr s'
          \<and> transactions s' = [] \<and> accounts s' = INITIAL_ACCOUNTS)"
proof -
  let ?batch = "[runtimeOf tea, runtimeOf gum]"
  have ne: "accounts initialState \<noteq> []" by (simp add: initialState_def INITIAL_ACCOUNTS_def)
  have hh: "list_all hasHint ?batch" by (simp add: hasHint_def runtimeOf_def)
  have acc: "accounts initialState = INITIAL_ACCOUNTS" "transactions initialState = []"
    by (simp_all add: initialState_def)
  have r0: "resolveHint INITIAL_ACCOUNTS ''HDFC Savings'' = 0"
    by (simp add: resolveHint_def INITIAL_ACCOUNTS_def hdfc_def cashWallet_def toLowerCase_def
        toLowerCase_char_def)
  have to0: "filter (resolvesTo INITIAL_ACCOUNTS 0) ?batch = ?batch"
    and to1: "filter (resolvesTo INITIAL_ACCOUNTS (Suc 0)) ?batch = []"
    by (simp_all add: resolvesTo_def runtimeOf_def tea_def gum_def r0)
  have bal: "a_balance (INITIAL_ACCOUNTS ! 0) = Num 50000"
    "a_balance (INITIAL_ACCOUNTS ! Suc 0) = Num 2000" "length INITIAL_ACCOUNTS = 2"
    by (simp_all add: INITIAL_ACCOUNTS_def hdfc_def cashWallet_def)
  have seq: "foldl (applyDelta jsAdd jsSub) (Num 50000) ?batch = parseFloat ''49999.700000000004''"
    by (simp add: applyDelta_def runtimeOf_def tea_def gum_def coffee_def EXPENSE_def INCOME_def
        jsSub_tea jsSub_gum)
  from confirmTransactionsRT_batch [of initialState ?batch jsAdd jsSub clockMs clockIso] ne hh
  obtain s' where s': "confirmTransactionsRT jsAdd jsSub clockMs clockIso (Some ?batch) initialState = Inr s'"
      "\<exists>newTxs. transactions s' = newTxs @ transactions initialState \<and> length newTxs = length ?batch"
      "\<forall>k<length (accounts initialState).
          a_balance (accounts s' ! k) =
            foldl (applyDelta jsAdd jsSub) (a_balance (accounts initialState ! k))
                  (filter (resolvesTo (accounts initialState) k) ?batch)"
    by blast
  have l: "length (transactions s') = 2" using s'(2) by (auto simp add: acc)
  have in0: "0 < length (accounts initialState)" and in1: "Suc 0 < length (accounts initialState)"
    by (simp_all add: acc bal)
  have k0: "a_balance (accounts s' ! 0) = parseFloat ''49999.700000000004''"
    using s'(3) [rule_format, OF in0] by (simp only: acc bal to0 seq)
  have "a_balance (accounts s' ! Suc 0) = Num 2000"
    using s'(3) [rule_format, OF in1] by (simp only: acc bal to1 foldl.simps)
  then have k1: "a_balance (accounts s' ! 1) = Num 2000" by simp
  have first: "\<exists>s'. confirmTransactionsRT jsAdd jsSub clockMs clockIso (Some ?batch) initialState = Inr s'
          \<and> length (transactions s') = 2
          \<and> a_balance (accounts s' ! 0) = parseFloat ''49999.700000000004''
          \<and> a_balance (accounts s' ! 1) = Num 2000"
    using s'(1) l k0 k1 by (intro exI [of _ s'] conjI)
  from confirmTransactionsRT_batch [of initialState "[]" jsAdd jsSub clockMs clockIso]
  have second: "\<exists>s'. confirmTransactionsRT jsAdd jsSub clockMs clockIso (Some []) initialState = Inr s'
          \<and> transactions s' = [] \<and> accounts s' = INITIAL_ACCOUNTS"
    by (simp only: acc) auto
  from ne hh first second show ?thesis by (intro conjI)
qed

theorem confirmTransactionsRT_rounding_counterexample:
  "confirmTransactionsRT jsAdd jsSub clockMs clockIso (Some [runtimeOf tea, runtimeOf gum])
     initialState
   = Inr \<lparr> accounts = [hdfc\<lparr> a_balance := parseFloat ''49999.700000000004'' \<rparr>, cashWallet],
           transactions = [txOf clockMs clockIso hdfc tea 0, txOf clockMs clockIso hdfc gum 1],
           previewData = None, inputText = [], entryMode = ''ai'', activeTab = ''history'',
           transferData = \<lparr> tf_from = None, tf_to = None, tf_amount = None \<rparr>,
           editingTransaction = None \<rparr>
   \<and> signedDelta tea = - parseFloat ''0.1'' \<and> signedDelta gum = - parseFloat ''0.2''
   \<and> jsAdd (Num 50000) (jsAdd (- parseFloat ''0.1'') (- parseFloat ''0.2'')) = parseFloat ''49999.7''
   \<and> parseFloat ''49999.700000000004'' \<noteq> parseFloat ''49999.7''
   \<and> parseFloat ''49999.700000000004'' \<noteq> Num 50000 + (- parseFloat ''0.1'' + - parseFloat ''0.2'')"
proof -
  have run: "confirmTransactionsRT jsAdd jsSub clockMs clockIso (Some [runtimeOf tea, runtimeOf gum])
     initialState
   = Inr \<lparr> accounts = [hdfc\<lparr> a_balance := parseFloat ''49999.700000000004'' \<rparr>, cashWallet],
           transactions = [txOf clockMs clockIso hdfc tea 0, txOf clockMs clockIso hdfc gum 1],
           previewData = None, inputText = [], entryMode = ''ai'', activeTab = ''history'',
           transferData = \<lparr> tf_from = None, tf_to = None, tf_amount = None \<rparr>,
           editingTransaction = None \<rparr>"
    by (simp add: confirmTransactionsRT_def confirmStepRT_def resolveHint_def runtimeOf_def
        tea_def gum_def example_defs toLowerCase_def toLowerCase_char_def truthy_string_def
        txOf_def jsSub_tea jsSub_gum)
  have deltas: "signedDelta tea = - parseFloat ''0.1''" "signedDelta gum = - parseFloat ''0.2''"
    by (simp_all add: signedDelta_def tea_def gum_def coffee_def EXPENSE_def INCOME_def)
  have claimed: "jsAdd (Num 50000) (jsAdd (- parseFloat ''0.1'') (- parseFloat ''0.2''))
                   = parseFloat ''49999.7''"
    by (simp add: parseFloat_tenth parseFloat_fifth parseFloat_claimed jsAdd_def)
       (simp add: double_defs)
  have ne1: "parseFloat ''49999.700000000004'' \<noteq> parseFloat ''49999.7''"
    by (simp add: parseFloat_sequential parseFloat_claimed)
  have ne2: "parseFloat ''49999.700000000004''
               \<noteq> Num 50000 + (- parseFloat ''0.1'' + - parseFloat ''0.2'')"
    by (simp add: parseFloat_sequential parseFloat_tenth parseFloat_fifth)
  from run deltas claimed ne1 ne2 show ?thesis by (intro conjI)
qed

text \<open>
  Claim C1, as amended. Commit performs no final validation of a candidate's account.
  For a non-empty account directory and a batch in which every candidate carries an
  account hint, commit does not reject the batch: it returns normally and puts one
  ledger entry per candidate in front of the ledger, each recorded against the account
  its hint resolves to; a candidate whose hint is included in no account name (for
  instance because its account was deleted after staging) is recorded against the first
  account of the directory. This holds whatever the arithmetic.
\<close>

theorem confirmTransactionsRT_no_final_validation:
  assumes "accounts s \<noteq> []" and "list_all hasHint batch"
  shows "\<exists>s' newTxs.
           confirmTransactionsRT add sub now isoNow (Some batch) s = Inr s'
           \<and> transactions s' = newTxs @ transactions s
           \<and> length newTxs = length batch
           \<and> (\<forall>j<length batch. \<forall>hint. c_accountNameMatch (batch ! j) = Some hint \<longrightarrow>
                 t_accountId (newTxs ! j) = a_id (accounts s ! resolveHint (accounts s) hint)
                 \<and> ((\<forall>a\<in>set (accounts s). \<not> nameIncludesHint hint a) \<longrightarrow>
                      t_accountId (newTxs ! j) = a_id (accounts s ! 0)))"
proof -
  let ?new = "map (ledgerEntry now isoNow (accounts s)) (enumerate 0 batch)"
  let ?s' = "s\<lparr> transactions := ?new @ transactions s,
                 accounts := fold (\<lambda>p a. creditRT add sub a p) batch (accounts s),
                 previewData := None, inputText := [], entryMode := ''ai'',
                 activeTab := ''history'' \<rparr>"
  have run: "confirmTransactionsRT add sub now isoNow (Some batch) s = Inr ?s'"
    by (rule confirmTransactionsRT_ok [OF assms])
  have led: "transactions ?s' = ?new @ transactions s" by simp
  have len: "length ?new = length batch" by simp
  have booked: "t_accountId (?new ! j) = a_id (accounts s ! resolveHint (accounts s) hint)
                \<and> ((\<forall>a\<in>set (accounts s). \<not> nameIncludesHint hint a) \<longrightarrow>
                     t_accountId (?new ! j) = a_id (accounts s ! 0))"
    if "j < length batch" and "c_accountNameMatch (batch ! j) = Some hint" for j hint
    using ledgerEntries_nth [OF that, of now isoNow "accounts s" 0]
      resolveHint_no_match [of "accounts s" hint]
    by auto
  from run led len booked show ?thesis by blast
qed

theorem confirmTransactionsRT_no_final_validation_witness:
  "accounts (deleteAccount True ''2'' initialState) = [hdfc]
   \<and> list_all hasHint [runtimeOf coffee]
   \<and> c_accountNameMatch (runtimeOf coffee) = Some ''Cash Wallet''
   \<and> \<not> nameIncludesHint ''Cash Wallet'' hdfc
   \<and> (\<exists>s' tx. confirmTransactionsRT jsAdd jsSub clockMs clockIso (Some [runtimeOf coffee])
                  (deleteAccount True ''2'' initialState) = Inr s'
          \<and> transactions s' = [tx] \<and> t_accountId tx = ''1'')"
proof -
  let ?d = "deleteAccount True ''2'' initialState"
  have acc: "accounts ?d = [hdfc]" "transactions ?d = []"
    by (simp_all add: deleteAccount_def example_defs)
  have ne: "accounts ?d \<noteq> []" by (simp add: acc)
  have hh: "list_all hasHint [runtimeOf coffee]" by (simp add: hasHint_def runtimeOf_def)
  have hint: "c_accountNameMatch (runtimeOf coffee) = Some ''Cash Wallet''"
    by (simp add: runtimeOf_def coffee_def)
  have nm: "\<not> nameIncludesHint ''Cash Wallet'' hdfc"
    by (simp add: nameIncludesHint_def hdfc_def toLowerCase_def toLowerCase_char_def)
  from confirmTransactionsRT_no_final_validation [OF ne hh, of jsAdd jsSub clockMs clockIso]
  obtain s' newTxs where r:
      "confirmTransactionsRT jsAdd jsSub clockMs clockIso (Some [runtimeOf coffee]) ?d = Inr s'"
      "transactions s' = newTxs @ transactions ?d"
      "length newTxs = length [runtimeOf coffee]"
      "\<forall>j<length [runtimeOf coffee]. \<forall>hint. c_accountNameMatch ([runtimeOf coffee] ! j) = Some hint \<longrightarrow>
          t_accountId (newTxs ! j) = a_id (accounts ?d ! resolveHint (accounts ?d) hint)
          \<and> ((\<forall>a\<in>set (accounts ?d). \<not> nameIncludesHint hint a) \<longrightarrow>
               t_accountId (newTxs ! j) = a_id (accounts ?d ! 0))"
    by blast
  from r(3) obtain tx where one: "newTxs = [tx]"
    by (cases newTxs) simp_all
  have l0: "0 < length [runtimeOf coffee]" by simp
  have h0: "c_accountNameMatch ([runtimeOf coffee] ! 0) = Some ''Cash Wallet''"
    by (simp add: hint)
  have none: "\<forall>a\<in>set (accounts ?d). \<not> nameIncludesHint ''Cash Wallet'' a"
    by (simp add: acc nm)
  from r(4) l0 h0 none have "t_accountId (newTxs ! 0) = a_id (accounts ?d ! 0)"
    by blast
  then have id1: "t_accountId tx = ''1''" by (simp add: one acc hdfc_def)
  from r(2) one have tr: "transactions s' = [tx]" by (simp add: acc)
  from r(1) tr id1
  have "\<exists>s' tx. confirmTransactionsRT jsAdd jsSub clockMs clockIso (Some [runtimeOf coffee]) ?d = Inr s'
          \<and> transactions s' = [tx] \<and> t_accountId tx = ''1''"
    by blast
  with acc(1) hh hint nm show ?thesis by (intro conjI)
qed

theorem confirmTransactions_deleted_account_counterexample:
  "map a_id (accounts (deleteAccount True ''2'' (initialState\<lparr> previewData := Some [coffee] \<rparr>))) = [''1'']
   \<and> map a_balance (accounts (deleteAccount True ''2'' (initialState\<lparr> previewData := Some [coffee] \<rparr>)))
       = [Num 50000]
   \<and> confirmTransactions clockMs clockIso
       (deleteAccount True ''2'' (initialState\<lparr> previewData := Some [coffee] \<rparr>))
     = Inr \<lparr> accounts = [\<lparr> a_id = ''1'', a_userId = ''u1'', a_name = ''HDFC Savings'',
                             a_type = ''SAVINGS'', a_balance = Num 49750 \<rparr>],
             transactions = [\<lparr> t_id = ''1698192000000'', t_date = ''2023-10-25'',
                                 t_description = ''Coffee'', t_amount = Num 250,
                                 t_type = ''EXPENSE'', t_category = ''Beverages'',
                                 t_subCategory = ''Imported'', t_accountId = ''1'' \<rparr>],
             previewData = None, inputText = [], entryMode = ''ai'', activeTab = ''history'',
             transferData = \<lparr> tf_from = None, tf_to = None, tf_amount = None \<rparr>,
             editingTransaction = None \<rparr>"
  by (simp add: eval_commit_after_delete) (simp add: deleteAccount_def example_defs)

text \<open>
  A commit can also end after part of the batch has been applied. When the second
  candidate of a batch lacks the account hint, the handler throws in the second
  iteration: no ledger entry is inserted and no setter runs, but the balance of the
  first candidate's account has already been updated in place.
\<close>

theorem confirmTransactionsRT_partial_update:
  "confirmTransactionsRT jsAdd jsSub clockMs clockIso (Some [runtimeOf coffee, noHintSalary])
     initialState
   = Inl (TypeError, initialState\<lparr> accounts := [hdfc, cashWallet\<lparr> a_balance := Num 1750 \<rparr>] \<rparr>)"
  by (simp add: confirmTransactionsRT_def confirmStepRT_def resolveHint_def runtimeOf_def
      noHintSalary_def salary_def example_defs toLowerCase_def toLowerCase_char_def
      truthy_string_def jsSub_coffee_wallet)





text \<open>
  Claim C4, as amended. Account resolution matches a candidate's hint by
  case-insensitive substring containment in one direction only: the lower-cased account
  name contains the lower-cased hint. The first matching account in directory order
  wins; when no account matches, the candidate is resolved to index 0, the first
  account, and against a non-empty directory the ledger entry is recorded against the
  account so resolved.
\<close>

theorem resolveIndex_policy:
  "(nameIncludesHint hint a \<longleftrightarrow> (\<exists>ps ss. toLowerCase (a_name a) = ps @ toLowerCase hint @ ss))
   \<and> ((\<exists>a\<in>set accs. nameIncludesHint (p_accountNameMatch p) a) \<longrightarrow>
        resolveIndex accs p < length accs
        \<and> nameIncludesHint (p_accountNameMatch p) (accs ! resolveIndex accs p)
        \<and> (\<forall>j<resolveIndex accs p. \<not> nameIncludesHint (p_accountNameMatch p) (accs ! j)))
   \<and> ((\<forall>a\<in>set accs. \<not> nameIncludesHint (p_accountNameMatch p) a) \<longrightarrow> resolveIndex accs p = 0)
   \<and> (accs \<noteq> [] \<longrightarrow>
        (\<exists>accs' tx. confirmStep now isoNow accs p i = Inr (accs', tx)
            \<and> t_accountId tx = a_id (accs ! resolveIndex accs p)))"
proof -
  have a: "nameIncludesHint hint a \<longleftrightarrow> (\<exists>ps ss. toLowerCase (a_name a) = ps @ toLowerCase hint @ ss)"
    by (simp add: nameIncludesHint_def includes_str_iff)
  have d: "accs \<noteq> [] \<longrightarrow>
        (\<exists>accs' tx. confirmStep now isoNow accs p i = Inr (accs', tx)
            \<and> t_accountId tx = a_id (accs ! resolveIndex accs p))"
    by (simp add: confirmStep_Inr txOf_def)
  from a resolveIndex_match [of accs p] resolveIndex_no_match [of accs p] d
  show ?thesis by blast
qed

theorem resolveIndex_policy_witness:
  "nameIncludesHint ''SAV'' hdfc
   \<and> toLowerCase (a_name hdfc) = ''hdfc '' @ toLowerCase ''SAV'' @ ''ings''
   \<and> hdfc \<in> set [cashWallet, hdfc, hdfc\<lparr> a_id := ''3'' \<rparr>]
   \<and> resolveIndex [cashWallet, hdfc, hdfc\<lparr> a_id := ''3'' \<rparr>] snack = 1
   \<and> \<not> nameIncludesHint ''SAV'' cashWallet
   \<and> \<not> nameIncludesHint ''Petty Cash'' hdfc \<and> \<not> nameIncludesHint ''Petty Cash'' cashWallet
   \<and> resolveIndex [hdfc, cashWallet] taxi = 0
   \<and> [hdfc, cashWallet] \<noteq> []
   \<and> (\<exists>accs' tx. confirmStep clockMs clockIso [hdfc, cashWallet] taxi 0 = Inr (accs', tx)
          \<and> t_accountId tx = ''1'')"
proof -
  let ?accs = "[cashWallet, hdfc, hdfc\<lparr> a_id := ''3'' \<rparr>]"
  have lower: "toLowerCase (a_name hdfc) = ''hdfc '' @ toLowerCase ''SAV'' @ ''ings''"
    by (simp add: hdfc_def toLowerCase_def toLowerCase_char_def)
  with resolveIndex_policy [of "''SAV''" hdfc "[]" snack clockMs clockIso 0]
  have m: "nameIncludesHint ''SAV'' hdfc" by blast
  have mem: "hdfc \<in> set ?accs" by simp
  have hint: "p_accountNameMatch snack = ''SAV''" "p_accountNameMatch taxi = ''Petty Cash''"
    by (simp_all add: snack_def taxi_def)
  have n0: "\<not> nameIncludesHint ''SAV'' cashWallet"
    by (simp add: nameIncludesHint_def cashWallet_def toLowerCase_def toLowerCase_char_def)
  from resolveIndex_policy [of "''SAV''" hdfc ?accs snack clockMs clockIso 0] m mem
  have r: "resolveIndex ?accs snack < length ?accs
        \<and> nameIncludesHint ''SAV'' (?accs ! resolveIndex ?accs snack)
        \<and> (\<forall>j<resolveIndex ?accs snack. \<not> nameIncludesHint ''SAV'' (?accs ! j))"
    by (simp only: hint) blast
  have r1: "resolveIndex ?accs snack = 1"
  proof -
    from r have "resolveIndex ?accs snack < 3" by simp
    then consider "resolveIndex ?accs snack = 0" | "resolveIndex ?accs snack = 1"
      | "resolveIndex ?accs snack = 2" by linarith
    then show ?thesis
    proof cases
      case 1
      with r n0 show ?thesis by simp
    next
      case 2
      then show ?thesis .
    next
      case 3
      with r have "\<forall>j<2. \<not> nameIncludesHint ''SAV'' (?accs ! j)" by simp
      then have "\<not> nameIncludesHint ''SAV'' (?accs ! 1)" by (rule allE [of _ 1]) simp
      with m show ?thesis by simp
    qed
  qed
  have n1: "\<not> nameIncludesHint ''Petty Cash'' hdfc" "\<not> nameIncludesHint ''Petty Cash'' cashWallet"
    by (simp_all add: nameIncludesHint_def hdfc_def cashWallet_def toLowerCase_def
        toLowerCase_char_def)
  from resolveIndex_policy [of "''SAV''" hdfc "[hdfc, cashWallet]" taxi clockMs clockIso 0]
  have "(\<forall>a\<in>set [hdfc, cashWallet]. \<not> nameIncludesHint (p_accountNameMatch taxi) a) \<longrightarrow>
          resolveIndex [hdfc, cashWallet] taxi = 0"
    by blast
  with n1 have r0: "resolveIndex [hdfc, cashWallet] taxi = 0" by (simp add: hint)
  have ne: "[hdfc, cashWallet] \<noteq> []" by simp
  from resolveIndex_policy [of "''SAV''" hdfc "[hdfc, cashWallet]" taxi clockMs clockIso 0]
  have "[hdfc, cashWallet] \<noteq> [] \<longrightarrow>
          (\<exists>accs' tx. confirmStep clockMs clockIso [hdfc, cashWallet] taxi 0 = Inr (accs', tx)
              \<and> t_accountId tx = a_id ([hdfc, cashWallet] ! resolveIndex [hdfc, cashWallet] taxi))"
    by blast
  moreover have "a_id hdfc = ''1''" by (simp add: hdfc_def)
  ultimately have c: "\<exists>accs' tx. confirmStep clockMs clockIso [hdfc, cashWallet] taxi 0 = Inr (accs', tx)
          \<and> t_accountId tx = ''1''"
    using ne by (simp add: r0)
  from m lower mem r1 n0 n1 r0 ne c show ?thesis by blast
qed

theorem resolveIndex_hint_contains_name_counterexample:
  "includes_str (toLowerCase ''HDFC Savings Account'') (toLowerCase (a_name hdfc))
   \<and> \<not> includes_str (toLowerCase ''HDFC Savings Account'') (toLowerCase (a_name cashWallet))
   \<and> \<not> includes_str (toLowerCase (a_name cashWallet)) (toLowerCase ''HDFC Savings Account'')
   \<and> p_accountNameMatch fee = ''HDFC Savings Account''
   \<and> resolveIndex [cashWallet, hdfc] fee = 0
   \<and> confirmStep clockMs clockIso [cashWallet, hdfc] fee 0
       = Inr ([cashWallet\<lparr> a_balance := Num 1750 \<rparr>, hdfc],
              \<lparr> t_id = ''1698192000000'', t_date = ''2023-10-25'', t_description = ''Fee'',
                t_amount = Num 250, t_type = ''EXPENSE'', t_category = ''Beverages'',
                t_subCategory = ''Imported'', t_accountId = ''2'' \<rparr>)"
  by (simp add: fee_def example_defs eval_defs string_of_clock)

text \<open>
  Claim C3, as amended. In a directory with unique ids, for every pair of distinct
  accounts \<open>X\<close> and \<open>Y\<close> with non-empty ids and every amount \<open>A\<close> other than zero and
  \<open>NaN\<close>, a transfer of \<open>A\<close> from \<open>X\<close> to \<open>Y\<close> replaces the balance of \<open>X\<close> by the
  program's difference of it and \<open>A\<close> and the balance of \<open>Y\<close> by the program's sum of it
  and \<open>A\<close> (one floating-point operation each), leaves every other account as it is, and
  puts exactly one new entry in front of the ledger: an \<open>EXPENSE\<close> of amount \<open>A\<close>
  recorded against \<open>X\<close>, with category \<open>Transfer\<close> and sub-category \<open>Internal\<close>. A
  transfer whose source or destination is missing or empty, or whose amount is missing,
  zero or \<open>NaN\<close>, is ignored: the state stays as it is and no entry is created. Nothing
  is claimed about the sum of all balances, which rounding can change.
\<close>

theorem handleTransfer_debits_and_credits:
  "(distinct (map a_id (accounts s)) \<and> X \<in> set (accounts s) \<and> Y \<in> set (accounts s)
      \<and> a_id X \<noteq> a_id Y \<and> a_id X \<noteq> [] \<and> a_id Y \<noteq> []
      \<and> transferData s = \<lparr> tf_from = Some (a_id X), tf_to = Some (a_id Y), tf_amount = Some A \<rparr>
      \<and> A \<noteq> Num 0 \<and> A \<noteq> NaN \<longrightarrow>
      accounts (handleTransfer add sub now isoNow s) =
        map (\<lambda>c. if c = X then X\<lparr> a_balance := sub (a_balance X) A \<rparr>
                  else if c = Y then Y\<lparr> a_balance := add (a_balance Y) A \<rparr>
                  else c) (accounts s)
      \<and> (\<exists>tx. transactions (handleTransfer add sub now isoNow s) = tx # transactions s
             \<and> t_accountId tx = a_id X \<and> t_amount tx = A \<and> t_type tx = EXPENSE
             \<and> t_category tx = ''Transfer'' \<and> t_subCategory tx = ''Internal''))
   \<and> (tf_from (transferData s) \<in> {None, Some []}
        \<or> tf_to (transferData s) \<in> {None, Some []}
        \<or> tf_amount (transferData s) \<in> {None, Some (Num 0), Some NaN} \<longrightarrow>
      handleTransfer add sub now isoNow s = s)"
proof (intro conjI impI)
  assume h: "distinct (map a_id (accounts s)) \<and> X \<in> set (accounts s) \<and> Y \<in> set (accounts s)
      \<and> a_id X \<noteq> a_id Y \<and> a_id X \<noteq> [] \<and> a_id Y \<noteq> []
      \<and> transferData s = \<lparr> tf_from = Some (a_id X), tf_to = Some (a_id Y), tf_amount = Some A \<rparr>
      \<and> A \<noteq> Num 0 \<and> A \<noteq> NaN"
  then have d: "distinct (map a_id (accounts s))" and x: "X \<in> set (accounts s)"
    and y: "Y \<in> set (accounts s)" and nx: "a_id X \<noteq> []" and ny: "a_id Y \<noteq> []"
    and td: "transferData s = \<lparr> tf_from = Some (a_id X), tf_to = Some (a_id Y), tf_amount = Some A \<rparr>"
    and tr: "truthy_number A"
    by (simp_all add: truthy_number_iff)
  note eq = handleTransfer_eq [OF d x y nx ny td tr, of add sub now isoNow]
  have inj: "a_id c = a_id X \<longleftrightarrow> c = X" "a_id c = a_id Y \<longleftrightarrow> c = Y" if "c \<in> set (accounts s)" for c
    using that d x y by (auto simp: distinct_map inj_on_def)
  have accs: "map (\<lambda>a. if a_id a = a_id X then a\<lparr> a_balance := sub (a_balance a) A \<rparr>
                       else if a_id a = a_id Y then a\<lparr> a_balance := add (a_balance a) A \<rparr>
                       else a) (accounts s) =
           map (\<lambda>c. if c = X then X\<lparr> a_balance := sub (a_balance X) A \<rparr>
                     else if c = Y then Y\<lparr> a_balance := add (a_balance Y) A \<rparr>
                     else c) (accounts s)"
    by (rule map_cong [OF refl]) (auto simp: inj)
  show "accounts (handleTransfer add sub now isoNow s) =
        map (\<lambda>c. if c = X then X\<lparr> a_balance := sub (a_balance X) A \<rparr>
                  else if c = Y then Y\<lparr> a_balance := add (a_balance Y) A \<rparr>
                  else c) (accounts s)"
    by (simp only: eq accs [symmetric]) simp
  show "\<exists>tx. transactions (handleTransfer add sub now isoNow s) = tx # transactions s
             \<and> t_accountId tx = a_id X \<and> t_amount tx = A \<and> t_type tx = EXPENSE
             \<and> t_category tx = ''Transfer'' \<and> t_subCategory tx = ''Internal''"
    by (simp add: eq)
next
  assume "tf_from (transferData s) \<in> {None, Some []}
        \<or> tf_to (transferData s) \<in> {None, Some []}
        \<or> tf_amount (transferData s) \<in> {None, Some (Num 0), Some NaN}"
  then show "handleTransfer add sub now isoNow s = s"
    by (rule handleTransfer_ignored)
qed

theorem handleTransfer_debits_and_credits_witness:
  "distinct (map a_id (accounts (transferState INITIAL_ACCOUNTS ''1'' ''2'' (Num 500))))
   \<and> hdfc \<in> set INITIAL_ACCOUNTS \<and> cashWallet \<in> set INITIAL_ACCOUNTS
   \<and> a_id hdfc \<noteq> a_id cashWallet \<and> a_id hdfc \<noteq> [] \<and> a_id cashWallet \<noteq> []
   \<and> Num 500 \<noteq> Num 0 \<and> Num 500 \<noteq> NaN
   \<and> accounts (handleTransfer jsAdd jsSub 1698192000000 ''2023-10-25T00:00:00.000Z''
         (transferState INITIAL_ACCOUNTS ''1'' ''2'' (Num 500)))
       = [hdfc\<lparr> a_balance := Num 49500 \<rparr>, cashWallet\<lparr> a_balance := Num 2500 \<rparr>]
   \<and> (\<exists>tx. transactions (handleTransfer jsAdd jsSub 1698192000000 ''2023-10-25T00:00:00.000Z''
                (transferState INITIAL_ACCOUNTS ''1'' ''2'' (Num 500))) = [tx]
          \<and> t_accountId tx = ''1'' \<and> t_amount tx = Num 500 \<and> t_category tx = ''Transfer''
          \<and> t_subCategory tx = ''Internal'')
   \<and> tf_amount (transferData (transferState INITIAL_ACCOUNTS ''1'' ''2'' NaN)) = Some NaN
   \<and> handleTransfer jsAdd jsSub 1698192000000 ''2023-10-25T00:00:00.000Z''
         (transferState INITIAL_ACCOUNTS ''1'' ''2'' NaN)
       = transferState INITIAL_ACCOUNTS ''1'' ''2'' NaN"
proof -
  let ?s = "transferState INITIAL_ACCOUNTS ''1'' ''2'' (Num 500)"
  let ?n = "transferState INITIAL_ACCOUNTS ''1'' ''2'' NaN"
  have acc: "accounts ?s = [hdfc, cashWallet]" "transactions ?s = []"
    by (simp_all add: transferState_def initialState_def INITIAL_ACCOUNTS_def)
  have d: "distinct (map a_id (accounts ?s))"
    by (simp add: transferState_def INITIAL_ACCOUNTS_def hdfc_def cashWallet_def)
  have x: "hdfc \<in> set (accounts ?s)" and y: "cashWallet \<in> set (accounts ?s)"
    by (simp_all add: transferState_def INITIAL_ACCOUNTS_def)
  have ids: "a_id hdfc = ''1''" "a_id cashWallet = ''2''"
    by (simp_all add: hdfc_def cashWallet_def)
  have ne: "a_id hdfc \<noteq> a_id cashWallet" "a_id hdfc \<noteq> []" "a_id cashWallet \<noteq> []"
    by (simp_all add: ids)
  have td: "transferData ?s =
              \<lparr> tf_from = Some (a_id hdfc), tf_to = Some (a_id cashWallet),
                tf_amount = Some (Num 500) \<rparr>"
    by (simp add: ids transferState_def)
  have nz: "Num 500 \<noteq> Num 0" "Num 500 \<noteq> NaN" by simp_all
  have hc: "cashWallet \<noteq> hdfc" using ne(1) by auto
  note t = handleTransfer_debits_and_credits
    [of ?s hdfc cashWallet "Num 500" jsAdd jsSub 1698192000000 "''2023-10-25T00:00:00.000Z''"]
  from t d x y ne td nz
  have a0: "accounts (handleTransfer jsAdd jsSub 1698192000000 ''2023-10-25T00:00:00.000Z'' ?s) =
        map (\<lambda>c. if c = hdfc then hdfc\<lparr> a_balance := jsSub (a_balance hdfc) (Num 500) \<rparr>
                  else if c = cashWallet then cashWallet\<lparr> a_balance := jsAdd (a_balance cashWallet) (Num 500) \<rparr>
                  else c) (accounts ?s)"
    and c0: "\<exists>tx. transactions (handleTransfer jsAdd jsSub 1698192000000 ''2023-10-25T00:00:00.000Z'' ?s)
                 = tx # transactions ?s
             \<and> t_accountId tx = a_id hdfc \<and> t_amount tx = Num 500 \<and> t_type tx = EXPENSE
             \<and> t_category tx = ''Transfer'' \<and> t_subCategory tx = ''Internal''"
    by blast+
  have bal: "a_balance hdfc = Num 50000" "a_balance cashWallet = Num 2000"
    by (simp_all add: hdfc_def cashWallet_def)
  from a0 have a: "accounts (handleTransfer jsAdd jsSub 1698192000000 ''2023-10-25T00:00:00.000Z'' ?s)
       = [hdfc\<lparr> a_balance := Num 49500 \<rparr>, cashWallet\<lparr> a_balance := Num 2500 \<rparr>]"
    by (simp add: acc hc bal jsSub_transfer jsAdd_transfer)
  from c0 have c: "\<exists>tx. transactions (handleTransfer jsAdd jsSub 1698192000000 ''2023-10-25T00:00:00.000Z'' ?s) = [tx]
          \<and> t_accountId tx = ''1'' \<and> t_amount tx = Num 500 \<and> t_category tx = ''Transfer''
          \<and> t_subCategory tx = ''Internal''"
    by (simp add: acc ids) blast
  have am: "tf_amount (transferData ?n) = Some NaN" by (simp add: transferState_def)
  note tn = handleTransfer_debits_and_credits
    [of ?n hdfc cashWallet NaN jsAdd jsSub 1698192000000 "''2023-10-25T00:00:00.000Z''"]
  from tn am have ign: "handleTransfer jsAdd jsSub 1698192000000 ''2023-10-25T00:00:00.000Z'' ?n = ?n"
    by blast
  have x': "hdfc \<in> set INITIAL_ACCOUNTS" and y': "cashWallet \<in> set INITIAL_ACCOUNTS"
    by (simp_all add: INITIAL_ACCOUNTS_def)
  from d x' y' ne nz a c am ign show ?thesis by (intro conjI)
qed

theorem handleTransfer_total_counterexample:
  "map a_balance [purse, jar] = [parseFloat ''0.1'', parseFloat ''0.1'']
   \<and> map a_balance (accounts (handleTransfer jsAdd jsSub 1698192000000 ''2023-10-25T00:00:00.000Z''
        (transferState [purse, jar] ''3'' ''4'' (parseFloat ''0.2''))))
     = [- parseFloat ''0.1'', parseFloat ''0.30000000000000004'']
   \<and> foldl jsAdd (Num 0) [parseFloat ''0.1'', parseFloat ''0.1''] = parseFloat ''0.2''
   \<and> foldl jsAdd (Num 0) [- parseFloat ''0.1'', parseFloat ''0.30000000000000004'']
       = parseFloat ''0.20000000000000004''
   \<and> parseFloat ''0.2'' \<noteq> parseFloat ''0.20000000000000004''
   \<and> sum_list [parseFloat ''0.1'', parseFloat ''0.1'']
       \<noteq> sum_list [- parseFloat ''0.1'', parseFloat ''0.30000000000000004'']
   \<and> handleTransfer jsAdd jsSub 1698192000000 ''2023-10-25T00:00:00.000Z''
        (transferState INITIAL_ACCOUNTS ''1'' ''2'' (Num 0))
       = transferState INITIAL_ACCOUNTS ''1'' ''2'' (Num 0)
   \<and> transactions (transferState INITIAL_ACCOUNTS ''1'' ''2'' (Num 0)) = []
   \<and> map a_balance (accounts (handleTransfer jsAdd jsSub 1698192000000 ''2023-10-25T00:00:00.000Z''
        (transferState INITIAL_ACCOUNTS ''1'' ''1'' (Num 500))))
     = [Num 49500, Num 2000]
   \<and> map a_balance INITIAL_ACCOUNTS = [Num 50000, Num 2000]"
proof -
  have b: "map a_balance [purse, jar] = [parseFloat ''0.1'', parseFloat ''0.1'']"
    by (simp add: purse_def jar_def)
  have tr: "truthy_number (parseFloat ''0.2'')"
    by (simp add: parseFloat_fifth)
  have t: "map a_balance (accounts (handleTransfer jsAdd jsSub 1698192000000 ''2023-10-25T00:00:00.000Z''
        (transferState [purse, jar] ''3'' ''4'' (parseFloat ''0.2''))))
     = [- parseFloat ''0.1'', parseFloat ''0.30000000000000004'']"
    by (simp add: handleTransfer_def Let_def tr transferState_def initialState_def purse_def jar_def
        truthy_string_def jsAdd_tenth_fifth jsSub_tenth_fifth)
  have ne: "parseFloat ''0.2'' \<noteq> parseFloat ''0.20000000000000004''"
    by (simp add: parseFloat_fifth parseFloat_two_tenths_up)
  have ex: "sum_list [parseFloat ''0.1'', parseFloat ''0.1'']
       \<noteq> sum_list [- parseFloat ''0.1'', parseFloat ''0.30000000000000004'']"
    by (simp add: parseFloat_tenth parseFloat_three_tenths zero_number_def)
  have z: "handleTransfer jsAdd jsSub 1698192000000 ''2023-10-25T00:00:00.000Z''
        (transferState INITIAL_ACCOUNTS ''1'' ''2'' (Num 0))
       = transferState INITIAL_ACCOUNTS ''1'' ''2'' (Num 0)"
    by (simp add: handleTransfer_def transferState_def truthy_string_def)
  have zt: "transactions (transferState INITIAL_ACCOUNTS ''1'' ''2'' (Num 0)) = []"
    by (simp add: transferState_def initialState_def)
  have same: "map a_balance (accounts (handleTransfer jsAdd jsSub 1698192000000 ''2023-10-25T00:00:00.000Z''
        (transferState INITIAL_ACCOUNTS ''1'' ''1'' (Num 500))))
     = [Num 49500, Num 2000]"
    by (simp add: handleTransfer_def transferState_def initialState_def INITIAL_ACCOUNTS_def
        hdfc_def cashWallet_def truthy_string_def jsSub_transfer)
  have init: "map a_balance INITIAL_ACCOUNTS = [Num 50000, Num 2000]"
    by (simp add: INITIAL_ACCOUNTS_def hdfc_def cashWallet_def)
  from b t total_before total_after ne ex z zt same init show ?thesis by (intro conjI)
qed


text \<open>
  Claim C5, as amended. CSV import ignores the header row and accepts every later row
  with at least six comma-separated fields, read as
  \<open>date,description,amount,type,category,accountName\<close>; rows with fewer fields are
  skipped. The amount is read by \<open>parseFloat\<close>, the type and the category are taken as
  they stand, the account name is trimmed and kept as the hint. In particular the row
  \<open>2023-10-25,Coffee,250,EXPENSE,Beverages,Cash Wallet\<close> produces a candidate with
  amount 250, type \<open>EXPENSE\<close> and hint \<open>Cash Wallet\<close>; against an account list in which
  the account named \<open>Cash Wallet\<close> is the first whose lower-cased name contains
  \<open>cash wallet\<close>, the commit resolves the candidate to that account and records the
  ledger entry against its id.
\<close>

theorem handleBulkImport_six_columns:
  "previewData (handleBulkImport rnd (Some text) s) =
     Some (map (\<lambda>(k, line). candidateOfRow rnd k line)
               (enumerate 0 (filter (\<lambda>line. 6 \<le> length (split_str CHR '','' line))
                                    (drop 1 (split_str CHR 0x0A text)))))
   \<and> (CHR 0x0A \<notin> set header \<longrightarrow>
        previewData (handleBulkImport rnd (Some (header @ CHR 0x0A # rest)) s) =
          Some (map (\<lambda>(k, line). candidateOfRow rnd k line)
                    (enumerate 0 (filter (\<lambda>line. 6 \<le> length (split_str CHR '','' line))
                                         (split_str CHR 0x0A rest)))))
   \<and> candidateOfRow rnd k line =
        \<lparr> p_id = Some (rnd k),
          p_date = Some (split_str CHR '','' line ! 0),
          p_description = split_str CHR '','' line ! 1,
          p_amount = parseFloat (split_str CHR '','' line ! 2),
          p_type = split_str CHR '','' line ! 3,
          p_category = split_str CHR '','' line ! 4,
          p_subCategory = ''Imported'',
          p_accountNameMatch = trim (split_str CHR '','' line ! 5),
          p_isDuplicate = None, p_duplicateWarning = None \<rparr>
   \<and> previewData (handleBulkImport stagingId
         (Some (csvHeader @ [CHR 0x0A] @ ''2023-10-25,Coffee,250,EXPENSE,Beverages,Cash Wallet''))
         st)
       = Some [coffee\<lparr> p_id := Some ''row0'' \<rparr>]
   \<and> p_amount coffee = Num 250 \<and> p_type coffee = EXPENSE
   \<and> p_accountNameMatch coffee = ''Cash Wallet''
   \<and> (n < length accs \<and> a_name (accs ! n) = ''Cash Wallet''
        \<and> (\<forall>j<n. \<not> nameIncludesHint ''Cash Wallet'' (accs ! j)) \<longrightarrow>
      resolveIndex accs (coffee\<lparr> p_id := Some ''row0'' \<rparr>) = n
      \<and> (\<exists>accs' tx. confirmStep now isoNow accs (coffee\<lparr> p_id := Some ''row0'' \<rparr>) i
                         = Inr (accs', tx)
             \<and> t_accountId tx = a_id (accs ! n) \<and> t_amount tx = Num 250 \<and> t_type tx = EXPENSE))"
proof -
  have general: "previewData (handleBulkImport rnd (Some csv) s) =
     Some (map (\<lambda>(k, line). candidateOfRow rnd k line)
               (enumerate 0 (filter (\<lambda>line. 6 \<le> length (split_str CHR '','' line))
                                    (drop 1 (split_str CHR 0x0A csv)))))" for csv
    by (simp add: handleBulkImport_previewData acceptedRows_def)
  have header: "previewData (handleBulkImport rnd (Some (header @ CHR 0x0A # rest)) s) =
          Some (map (\<lambda>(k, line). candidateOfRow rnd k line)
                    (enumerate 0 (filter (\<lambda>line. 6 \<le> length (split_str CHR '','' line))
                                         (split_str CHR 0x0A rest))))"
    if "CHR 0x0A \<notin> set header"
    by (simp only: general split_str_header [OF that]) simp
  have row: "candidateOfRow rnd k line =
        \<lparr> p_id = Some (rnd k),
          p_date = Some (split_str CHR '','' line ! 0),
          p_description = split_str CHR '','' line ! 1,
          p_amount = parseFloat (split_str CHR '','' line ! 2),
          p_type = split_str CHR '','' line ! 3,
          p_category = split_str CHR '','' line ! 4,
          p_subCategory = ''Imported'',
          p_accountNameMatch = trim (split_str CHR '','' line ! 5),
          p_isDuplicate = None, p_duplicateWarning = None \<rparr>"
    by (simp add: candidateOfRow_def Let_def)
  have template: "previewData (handleBulkImport stagingId
         (Some (csvHeader @ [CHR 0x0A] @ ''2023-10-25,Coffee,250,EXPENSE,Beverages,Cash Wallet''))
         st)
       = Some [coffee\<lparr> p_id := Some ''row0'' \<rparr>]"
    by (simp add: handleBulkImport_def Let_def parse_defs stagingId_def string_of_nat.simps
        csvHeader_def coffee_def EXPENSE_def)
  have fields: "p_amount coffee = Num 250" "p_type coffee = EXPENSE"
    "p_accountNameMatch coffee = ''Cash Wallet''"
    by (simp_all add: coffee_def)
  have resolved: "resolveIndex accs (coffee\<lparr> p_id := Some ''row0'' \<rparr>) = n
      \<and> (\<exists>accs' tx. confirmStep now isoNow accs (coffee\<lparr> p_id := Some ''row0'' \<rparr>) i
                         = Inr (accs', tx)
             \<and> t_accountId tx = a_id (accs ! n) \<and> t_amount tx = Num 250 \<and> t_type tx = EXPENSE)"
    if h: "n < length accs \<and> a_name (accs ! n) = ''Cash Wallet''
        \<and> (\<forall>j<n. \<not> nameIncludesHint ''Cash Wallet'' (accs ! j))"
  proof -
    let ?p = "coffee\<lparr> p_id := Some ''row0'' \<rparr>"
    have hint: "p_accountNameMatch ?p = ''Cash Wallet''" by (simp add: coffee_def)
    from h have "nameIncludesHint (p_accountNameMatch ?p) (accs ! n)"
      by (simp only: hint) (simp add: nameIncludesHint_same)
    with h have r: "resolveIndex accs ?p = n"
      by (intro resolveIndex_first_match) (simp_all only: hint, simp_all)
    from h have ne: "accs \<noteq> []" by auto
    from confirmStep_Inr [OF ne, of now isoNow ?p i] r
    have "\<exists>accs' tx. confirmStep now isoNow accs ?p i = Inr (accs', tx)
             \<and> t_accountId tx = a_id (accs ! n) \<and> t_amount tx = Num 250 \<and> t_type tx = EXPENSE"
      by (simp add: txOf_def coffee_def)
    with r show ?thesis by simp
  qed
  note g = general [of "text"]
  show ?thesis
    using g header row template fields resolved
    by (intro conjI impI) (assumption | blast)+
qed

theorem handleBulkImport_six_columns_witness:
  "CHR 0x0A \<notin> set csvHeader
   \<and> previewData (handleBulkImport stagingId
         (Some (csvHeader @ CHR 0x0A # ''2023-10-26,Dividend,1500,INCOME,Investments,HDFC Savings''))
         initialState)
       = Some [\<lparr> p_id = Some ''row0'', p_date = Some ''2023-10-26'', p_description = ''Dividend'',
                  p_amount = Num 1500, p_type = ''INCOME'', p_category = ''Investments'',
                  p_subCategory = ''Imported'', p_accountNameMatch = ''HDFC Savings'',
                  p_isDuplicate = None, p_duplicateWarning = None \<rparr>]
   \<and> 1 < length INITIAL_ACCOUNTS \<and> a_name (INITIAL_ACCOUNTS ! 1) = ''Cash Wallet''
   \<and> \<not> nameIncludesHint ''Cash Wallet'' (INITIAL_ACCOUNTS ! 0)
   \<and> resolveIndex INITIAL_ACCOUNTS (coffee\<lparr> p_id := Some ''row0'' \<rparr>) = 1
   \<and> (\<exists>accs' tx. confirmStep clockMs clockIso INITIAL_ACCOUNTS (coffee\<lparr> p_id := Some ''row0'' \<rparr>) 0
                      = Inr (accs', tx)
          \<and> t_accountId tx = ''2'' \<and> t_amount tx = Num 250 \<and> t_type tx = EXPENSE)"
proof -
  have h: "CHR 0x0A \<notin> set csvHeader" by (simp add: csvHeader_def)
  note t = handleBulkImport_six_columns
         [of stagingId "[]" initialState csvHeader
             "''2023-10-26,Dividend,1500,INCOME,Investments,HDFC Savings''" 0 "[]" initialState
             1 INITIAL_ACCOUNTS clockMs clockIso 0]
  from t h have "previewData (handleBulkImport stagingId
           (Some (csvHeader @ CHR 0x0A # ''2023-10-26,Dividend,1500,INCOME,Investments,HDFC Savings''))
           initialState) =
          Some (map (\<lambda>(k, line). candidateOfRow stagingId k line)
                    (enumerate 0 (filter (\<lambda>line. 6 \<le> length (split_str CHR '','' line))
                        (split_str CHR 0x0A ''2023-10-26,Dividend,1500,INCOME,Investments,HDFC Savings''))))"
    by blast
  then have staged: "previewData (handleBulkImport stagingId
         (Some (csvHeader @ CHR 0x0A # ''2023-10-26,Dividend,1500,INCOME,Investments,HDFC Savings''))
         initialState)
       = Some [\<lparr> p_id = Some ''row0'', p_date = Some ''2023-10-26'', p_description = ''Dividend'',
                  p_amount = Num 1500, p_type = ''INCOME'', p_category = ''Investments'',
                  p_subCategory = ''Imported'', p_accountNameMatch = ''HDFC Savings'',
                  p_isDuplicate = None, p_duplicateWarning = None \<rparr>]"
    by (simp add: candidateOfRow_def Let_def parse_defs stagingId_def string_of_nat.simps)
  have len: "1 < length INITIAL_ACCOUNTS" by (simp add: INITIAL_ACCOUNTS_def)
  have name: "a_name (INITIAL_ACCOUNTS ! 1) = ''Cash Wallet''"
    by (simp add: INITIAL_ACCOUNTS_def cashWallet_def)
  have first: "\<not> nameIncludesHint ''Cash Wallet'' (INITIAL_ACCOUNTS ! 0)"
    by (simp add: INITIAL_ACCOUNTS_def hdfc_def nameIncludesHint_def toLowerCase_def
        toLowerCase_char_def)
  then have before: "\<forall>j<1. \<not> nameIncludesHint ''Cash Wallet'' (INITIAL_ACCOUNTS ! j)"
    by simp
  have id2: "a_id (INITIAL_ACCOUNTS ! 1) = ''2''"
    by (simp add: INITIAL_ACCOUNTS_def cashWallet_def)
  from t len name before
  have res: "resolveIndex INITIAL_ACCOUNTS (coffee\<lparr> p_id := Some ''row0'' \<rparr>) = 1"
    and step: "\<exists>accs' tx. confirmStep clockMs clockIso INITIAL_ACCOUNTS (coffee\<lparr> p_id := Some ''row0'' \<rparr>) 0
                      = Inr (accs', tx)
          \<and> t_accountId tx = a_id (INITIAL_ACCOUNTS ! 1) \<and> t_amount tx = Num 250 \<and> t_type tx = EXPENSE"
    by blast+
  from step have step': "\<exists>accs' tx. confirmStep clockMs clockIso INITIAL_ACCOUNTS (coffee\<lparr> p_id := Some ''row0'' \<rparr>) 0
                      = Inr (accs', tx)
          \<and> t_accountId tx = ''2'' \<and> t_amount tx = Num 250 \<and> t_type tx = EXPENSE"
    by (simp only: id2)
  from h staged len name first res step' show ?thesis by (intro conjI)
qed

theorem handleBulkImport_five_fields_counterexample:
  "length (split_str CHR '','' ''2023-10-25,Coffee,250,EXPENSE,Cash Wallet'') = 5
   \<and> previewData (handleBulkImport stagingId
         (Some (csvHeader @ [CHR 0x0A] @ ''2023-10-25,Coffee,250,EXPENSE,Cash Wallet''))
         initialState)
       = Some []
   \<and> previewData (handleBulkImport stagingId
         (Some (csvHeader @ [CHR 0x0A] @ ''2023-10-25,Coffee,250,EXPENSE,Beverages,Cash Wallet''))
         initialState)
       = Some [coffee\<lparr> p_id := Some ''row0'' \<rparr>]
   \<and> cashWallet \<in> set [pettyCashWallet, cashWallet]
   \<and> a_name cashWallet = ''Cash Wallet'' \<and> a_id cashWallet = ''2''
   \<and> resolveIndex [pettyCashWallet, cashWallet] (coffee\<lparr> p_id := Some ''row0'' \<rparr>) = 0
   \<and> confirmStep clockMs clockIso [pettyCashWallet, cashWallet] (coffee\<lparr> p_id := Some ''row0'' \<rparr>) 0
       = Inr ([pettyCashWallet\<lparr> a_balance := Num 50 \<rparr>, cashWallet],
              txOf clockMs clockIso pettyCashWallet (coffee\<lparr> p_id := Some ''row0'' \<rparr>) 0)
   \<and> t_accountId (txOf clockMs clockIso pettyCashWallet (coffee\<lparr> p_id := Some ''row0'' \<rparr>) 0) = ''3''"
proof -
  have five: "length (split_str CHR '','' ''2023-10-25,Coffee,250,EXPENSE,Cash Wallet'') = 5"
    by simp
  have skipped: "previewData (handleBulkImport stagingId
         (Some (csvHeader @ [CHR 0x0A] @ ''2023-10-25,Coffee,250,EXPENSE,Cash Wallet''))
         initialState)
       = Some []"
    by (simp add: example_defs handleBulkImport_def Let_def)
  have staged: "previewData (handleBulkImport stagingId
         (Some (csvHeader @ [CHR 0x0A] @ ''2023-10-25,Coffee,250,EXPENSE,Beverages,Cash Wallet''))
         initialState)
       = Some [coffee\<lparr> p_id := Some ''row0'' \<rparr>]"
    by (simp only: eval_import_template_row) (simp add: coffee_def EXPENSE_def)
  have mem: "cashWallet \<in> set [pettyCashWallet, cashWallet]" by simp
  have cw: "a_name cashWallet = ''Cash Wallet''" "a_id cashWallet = ''2''"
    by (simp_all add: cashWallet_def)
  have res: "resolveIndex [pettyCashWallet, cashWallet] (coffee\<lparr> p_id := Some ''row0'' \<rparr>) = 0"
    by (simp add: resolveIndex_def pettyCashWallet_def cashWallet_def coffee_def toLowerCase_def
        toLowerCase_char_def)
  have step: "confirmStep clockMs clockIso [pettyCashWallet, cashWallet] (coffee\<lparr> p_id := Some ''row0'' \<rparr>) 0
       = Inr ([pettyCashWallet\<lparr> a_balance := Num 50 \<rparr>, cashWallet],
              txOf clockMs clockIso pettyCashWallet (coffee\<lparr> p_id := Some ''row0'' \<rparr>) 0)"
    by (simp add: confirmStep_def Let_def res txOf_def)
       (simp add: coffee_def pettyCashWallet_def EXPENSE_def INCOME_def minus_number_def)
  have booked: "t_accountId (txOf clockMs clockIso pettyCashWallet (coffee\<lparr> p_id := Some ''row0'' \<rparr>) 0) = ''3''"
    by (simp add: txOf_def pettyCashWallet_def)
  from five skipped staged mem cw res step booked show ?thesis by (intro conjI)
qed

text \<open>
  Claim C7, as amended. Staging performs no duplicate detection. A candidate staged by
  CSV import carries no duplicate flag and no warning text, whatever the ledger holds:
  the staged batch does not depend on the state at all, and the ledger is left as it
  is. A candidate staged from the extraction service keeps whatever flag and warning
  the service's result carried, and every result is staged: none is removed or blocked.
\<close>

theorem staging_never_flags_duplicates:
  "(\<exists>rs. previewData (handleBulkImport rnd (Some text) s) = Some rs
          \<and> previewData (handleBulkImport rnd (Some text) s') = Some rs
          \<and> list_all (\<lambda>p. p_isDuplicate p = None \<and> p_duplicateWarning p = None) rs)
   \<and> transactions (handleBulkImport rnd upload s) = transactions s
   \<and> (truthy_string (trim (inputText s))
        \<and> fst (parseNaturalLanguageInput generateContent JSON_parse
                  (promptOf (inputText s) (accounts s))) = Some results \<longrightarrow>
        (\<exists>rs. previewData (processSmartEntry generateContent JSON_parse promptOf rnd s) = Some rs
            \<and> length rs = length results
            \<and> map p_isDuplicate rs = map p_isDuplicate results
            \<and> map p_duplicateWarning rs = map p_duplicateWarning results))
   \<and> transactions (processSmartEntry generateContent JSON_parse promptOf rnd s) = transactions s"
proof -
  have a: "\<exists>rs. previewData (handleBulkImport rnd (Some text) s) = Some rs
          \<and> previewData (handleBulkImport rnd (Some text) s') = Some rs
          \<and> list_all (\<lambda>p. p_isDuplicate p = None \<and> p_duplicateWarning p = None) rs"
    by (simp add: handleBulkImport_previewData staged_rows_flags)
  have b: "transactions (handleBulkImport rnd upload s) = transactions s"
    by (cases upload) (simp_all add: handleBulkImport_def)
  have c: "\<exists>rs. previewData (processSmartEntry generateContent JSON_parse promptOf rnd s) = Some rs
            \<and> length rs = length results
            \<and> map p_isDuplicate rs = map p_isDuplicate results
            \<and> map p_duplicateWarning rs = map p_duplicateWarning results"
    if "truthy_string (trim (inputText s))"
      and "fst (parseNaturalLanguageInput generateContent JSON_parse
                  (promptOf (inputText s) (accounts s))) = Some results"
    using that assign_ids_flags [of rnd 0 results]
    by (simp add: processSmartEntry_def del: map_map)
  have d: "transactions (processSmartEntry generateContent JSON_parse promptOf rnd s) = transactions s"
    by (simp add: processSmartEntry_def split: option.splits)
  from a b c d show ?thesis by blast
qed

theorem staging_never_flags_duplicates_witness:
  "truthy_string (trim (inputText typedState))
   \<and> fst (parseNaturalLanguageInput serviceArray parseExample
             (examplePrompt (inputText typedState) (accounts typedState)))
       = Some [salary, flaggedCoffee]
   \<and> p_isDuplicate flaggedCoffee = Some True
   \<and> (\<exists>rs. previewData (processSmartEntry serviceArray parseExample examplePrompt stagingId typedState)
               = Some rs
          \<and> length rs = 2
          \<and> map p_isDuplicate rs = [None, Some True]
          \<and> map p_duplicateWarning rs = [None, Some ''Possible duplicate''])"
proof -
  have t: "truthy_string (trim (inputText typedState))"
    by (simp add: typedState_def initialState_def truthy_string_def trim_def isWhiteSpace_def)
  have r: "fst (parseNaturalLanguageInput serviceArray parseExample
             (examplePrompt (inputText typedState) (accounts typedState)))
       = Some [salary, flaggedCoffee]"
    by (simp add: eval_parse_serviceArray)
  have f: "p_isDuplicate flaggedCoffee = Some True" by (simp add: flaggedCoffee_def)
  from staging_never_flags_duplicates
         [of stagingId "[]" typedState typedState None serviceArray parseExample examplePrompt
             "[salary, flaggedCoffee]"]
  have "truthy_string (trim (inputText typedState))
        \<and> fst (parseNaturalLanguageInput serviceArray parseExample
                  (examplePrompt (inputText typedState) (accounts typedState)))
            = Some [salary, flaggedCoffee] \<longrightarrow>
        (\<exists>rs. previewData (processSmartEntry serviceArray parseExample examplePrompt stagingId
                              typedState) = Some rs
            \<and> length rs = length [salary, flaggedCoffee]
            \<and> map p_isDuplicate rs = map p_isDuplicate [salary, flaggedCoffee]
            \<and> map p_duplicateWarning rs = map p_duplicateWarning [salary, flaggedCoffee])"
    by (rule conjunct2 [THEN conjunct2, THEN conjunct1])
  with t r have "\<exists>rs. previewData (processSmartEntry serviceArray parseExample examplePrompt stagingId
                              typedState) = Some rs
            \<and> length rs = length [salary, flaggedCoffee]
            \<and> map p_isDuplicate rs = map p_isDuplicate [salary, flaggedCoffee]
            \<and> map p_duplicateWarning rs = map p_duplicateWarning [salary, flaggedCoffee]"
    by blast
  then have "\<exists>rs. previewData (processSmartEntry serviceArray parseExample examplePrompt stagingId
                              typedState) = Some rs
          \<and> length rs = 2
          \<and> map p_isDuplicate rs = [None, Some True]
          \<and> map p_duplicateWarning rs = [None, Some ''Possible duplicate'']"
    by (simp add: salary_def flaggedCoffee_def coffee_def numeral_2_eq_2)
  with t r f show ?thesis by (intro conjI)
qed

theorem staging_duplicate_not_flagged_counterexample:
  "transactions (initialState\<lparr> transactions := [groceries] \<rparr>)
     = [\<lparr> t_id = ''1704412800000'', t_date = ''2024-01-05'',
          t_description = ''Grocery Shopping'', t_amount = Num 1200, t_type = ''EXPENSE'',
          t_category = ''Produce'', t_subCategory = ''Veg'', t_accountId = ''1'' \<rparr>]
   \<and> previewData (handleBulkImport stagingId
         (Some (csvHeader @ [CHR 0x0A]
                @ ''2024-01-05,Grocery Shopping at Store,1200,EXPENSE,Produce,HDFC Savings''))
         (initialState\<lparr> transactions := [groceries] \<rparr>))
       = Some [\<lparr> p_id = Some ''row0'', p_date = Some ''2024-01-05'',
                  p_description = ''Grocery Shopping at Store'', p_amount = Num 1200,
                  p_type = ''EXPENSE'', p_category = ''Produce'', p_subCategory = ''Imported'',
                  p_accountNameMatch = ''HDFC Savings'',
                  p_isDuplicate = None, p_duplicateWarning = None \<rparr>]
   \<and> a_id (INITIAL_ACCOUNTS ! resolveIndex INITIAL_ACCOUNTS
               (coffee\<lparr> p_accountNameMatch := ''HDFC Savings'' \<rparr>)) = ''1''
   \<and> includes_str (toLowerCase ''Grocery Shopping at Store'') (toLowerCase ''Grocery Shopping'')"
  by (simp add: example_defs groceries_def handleBulkImport_def Let_def parse_defs stagingId_def
      string_of_nat.simps resolveIndex_def toLowerCase_def toLowerCase_char_def)

text \<open>
  Claim C9, as amended. The client being constructed: when the primary, schema-enforced
  attempt throws (the request rejects, or the text it returns does not parse), the
  adapter issues exactly one further request, the relaxed one, and no more; when the
  primary attempt does not throw, no fallback is issued. What the fallback returns is
  parsed leniently: a value that is not an array is wrapped into a one-element array.
  When the fallback fails as well (it rejects, its text does not parse, or it returns no
  text), the adapter returns \<open>null\<close>, and on \<open>null\<close> the caller stages nothing: the state
  is left as it was. A primary answer without text is not treated as a failure: the
  adapter returns the empty array without a fallback request, and the caller stages an
  empty batch. When the construction of the client throws, the exception leaves the
  adapter; the caller catches it and leaves the state as it was.
\<close>

theorem parseNaturalLanguageInput_failure_paths:
  "(throws generateContent JSON_parse (primaryRequest prompt) \<longrightarrow>
      snd (parseNaturalLanguageInput generateContent JSON_parse prompt)
        = [primaryRequest prompt, fallbackRequest prompt])
   \<and> (\<not> throws generateContent JSON_parse (primaryRequest prompt) \<longrightarrow>
      snd (parseNaturalLanguageInput generateContent JSON_parse prompt) = [primaryRequest prompt])
   \<and> (throws generateContent JSON_parse (primaryRequest prompt)
        \<and> generateContent (fallbackRequest prompt) = Response (Some txt) \<and> txt \<noteq> []
        \<and> JSON_parse (trim txt) = Inr parsed \<longrightarrow>
      fst (parseNaturalLanguageInput generateContent JSON_parse prompt) = Some (wrapArray parsed))
   \<and> wrapArray (NotArray x) = [x] \<and> wrapArray (IsArray xs) = xs
   \<and> (throws generateContent JSON_parse (primaryRequest prompt)
        \<and> (throws generateContent JSON_parse (fallbackRequest prompt)
             \<or> noText generateContent (fallbackRequest prompt)) \<longrightarrow>
      fst (parseNaturalLanguageInput generateContent JSON_parse prompt) = None)
   \<and> (fst (parseNaturalLanguageInput generate parse (promptOf (inputText s) (accounts s))) = None \<longrightarrow>
      processSmartEntry generate parse promptOf rnd s = s)
   \<and> (noText generateContent (primaryRequest prompt) \<longrightarrow>
      parseNaturalLanguageInput generateContent JSON_parse prompt = (Some [], [primaryRequest prompt]))
   \<and> (noText generate (primaryRequest (promptOf (inputText s) (accounts s)))
        \<and> trim (inputText s) \<noteq> [] \<longrightarrow>
      processSmartEntry generate parse promptOf rnd s = s\<lparr> previewData := Some [] \<rparr>)
   \<and> parseNaturalLanguageInputAI (Inr generateContent) JSON_parse prompt
        = Inr (parseNaturalLanguageInput generateContent JSON_parse prompt)
   \<and> processSmartEntryAI (Inr generate) parse promptOf rnd s
        = processSmartEntry generate parse promptOf rnd s
   \<and> parseNaturalLanguageInputAI (Inl e) JSON_parse prompt = Inl e
   \<and> processSmartEntryAI (Inl e) parse promptOf rnd s = s"
proof -
  have one: "snd (parseNaturalLanguageInput generateContent JSON_parse prompt)
        = [primaryRequest prompt, fallbackRequest prompt]"
    if "throws generateContent JSON_parse (primaryRequest prompt)"
    using that by (simp add: parse_throws fallbackAttempt_calls)
  have none: "snd (parseNaturalLanguageInput generateContent JSON_parse prompt) = [primaryRequest prompt]"
    if "\<not> throws generateContent JSON_parse (primaryRequest prompt)"
    using parse_no_throw [OF that] by simp
  have wrap: "fst (parseNaturalLanguageInput generateContent JSON_parse prompt) = Some (wrapArray parsed)"
    if "throws generateContent JSON_parse (primaryRequest prompt)"
      and "generateContent (fallbackRequest prompt) = Response (Some txt)" and "txt \<noteq> []"
      and "JSON_parse (trim txt) = Inr parsed"
    using that by (simp add: parse_throws fallbackAttempt_result truthy_string_def)
  have null: "fst (parseNaturalLanguageInput generateContent JSON_parse prompt) = None"
    if "throws generateContent JSON_parse (primaryRequest prompt)"
      and "throws generateContent JSON_parse (fallbackRequest prompt)
           \<or> noText generateContent (fallbackRequest prompt)"
    using that
    by (auto simp add: parse_throws fallbackAttempt_result throws_def noText_def
        split: response.splits sum.splits)
  have caller: "processSmartEntry generate parse promptOf rnd s = s"
    if "fst (parseNaturalLanguageInput generate parse (promptOf (inputText s) (accounts s))) = None"
    using that by (simp add: processSmartEntry_def)
  have empty: "processSmartEntry generate parse promptOf rnd s = s\<lparr> previewData := Some [] \<rparr>"
    if "noText generate (primaryRequest (promptOf (inputText s) (accounts s)))"
      and "trim (inputText s) \<noteq> []"
    using that parse_no_text [of generate "promptOf (inputText s) (accounts s)" parse]
    by (simp add: processSmartEntry_def truthy_string_def)
  have client: "parseNaturalLanguageInputAI (Inr generateContent) JSON_parse prompt
        = Inr (parseNaturalLanguageInput generateContent JSON_parse prompt)"
    by (simp add: parseNaturalLanguageInputAI_def)
  have noClient: "parseNaturalLanguageInputAI (Inl e) JSON_parse prompt = Inl e"
    by (simp add: parseNaturalLanguageInputAI_def)
  have caught: "processSmartEntryAI (Inl e) parse promptOf rnd s = s"
    by (simp add: processSmartEntryAI_def parseNaturalLanguageInputAI_def)
  from one none wrap null caller parse_no_text [of generateContent prompt JSON_parse] empty client
    processSmartEntryAI_client [of generate parse promptOf rnd s] noClient caught
  show ?thesis by simp
qed

theorem parseNaturalLanguageInput_failure_paths_witness:
  "throws serviceDown parseExample (primaryRequest ''P'')
   \<and> throws serviceDown parseExample (fallbackRequest ''P'')
   \<and> parseNaturalLanguageInput serviceDown parseExample ''P''
       = (None, [primaryRequest ''P'', fallbackRequest ''P''])
   \<and> throws serviceMalformed parseExample (primaryRequest ''P'')
   \<and> serviceMalformed (fallbackRequest ''P'') = Response (Some ''OBJECT'')
   \<and> parseExample (trim ''OBJECT'') = Inr (NotArray salary)
   \<and> parseNaturalLanguageInput serviceMalformed parseExample ''P''
       = (Some [salary], [primaryRequest ''P'', fallbackRequest ''P''])
   \<and> \<not> throws serviceArray parseExample (primaryRequest ''P'')
   \<and> snd (parseNaturalLanguageInput serviceArray parseExample ''P'') = [primaryRequest ''P'']
   \<and> throws serviceSilent parseExample (primaryRequest ''P'')
   \<and> noText serviceSilent (fallbackRequest ''P'')
   \<and> fst (parseNaturalLanguageInput serviceSilent parseExample ''P'') = None
   \<and> fst (parseNaturalLanguageInput serviceDown parseExample
             (examplePrompt (inputText typedState) (accounts typedState))) = None
   \<and> processSmartEntry serviceDown parseExample examplePrompt stagingId typedState = typedState
   \<and> noText serviceMute (primaryRequest ''P'')
   \<and> parseNaturalLanguageInput serviceMute parseExample ''P'' = (Some [], [primaryRequest ''P''])
   \<and> noText serviceMute (primaryRequest (examplePrompt (inputText typedState) (accounts typedState)))
   \<and> trim (inputText typedState) \<noteq> []
   \<and> processSmartEntry serviceMute parseExample examplePrompt stagingId typedState
       = typedState\<lparr> previewData := Some [] \<rparr>
   \<and> processSmartEntryAI (Inl ClientError) parseExample examplePrompt stagingId typedState
       = typedState"
proof -
  note defs = throws_def noText_def primaryRequest_def fallbackRequest_def serviceDown_def
    serviceMalformed_def serviceSilent_def serviceArray_def parseExample_def truthy_string_def
    trim_def isWhiteSpace_def
  have d1: "throws serviceDown parseExample (primaryRequest q)" for q
    by (simp add: defs)
  have d2: "throws serviceDown parseExample (fallbackRequest q)" for q
    by (simp add: defs)
  note down = parseNaturalLanguageInput_failure_paths
    [of serviceDown parseExample "''P''" "[]" "IsArray []" salary "[]"
        serviceDown parseExample examplePrompt typedState stagingId]
  from down d1 d2
  have down_calls: "snd (parseNaturalLanguageInput serviceDown parseExample ''P'')
                     = [primaryRequest ''P'', fallbackRequest ''P'']"
    and down_null: "fst (parseNaturalLanguageInput serviceDown parseExample ''P'') = None"
    by blast+
  then have down_eq: "parseNaturalLanguageInput serviceDown parseExample ''P''
       = (None, [primaryRequest ''P'', fallbackRequest ''P''])"
    by (simp add: prod_eq_iff)
  note downT = parseNaturalLanguageInput_failure_paths
    [of serviceDown parseExample "examplePrompt (inputText typedState) (accounts typedState)"
        "[]" "IsArray []" salary "[]"
        serviceDown parseExample examplePrompt typedState stagingId]
  from downT d1 d2
  have caller_null: "fst (parseNaturalLanguageInput serviceDown parseExample
             (examplePrompt (inputText typedState) (accounts typedState))) = None"
    by blast
  with downT
  have caller: "processSmartEntry serviceDown parseExample examplePrompt stagingId typedState
                  = typedState"
    by blast
  have m1: "throws serviceMalformed parseExample (primaryRequest ''P'')"
    by (simp add: defs)
  have m2: "serviceMalformed (fallbackRequest ''P'') = Response (Some ''OBJECT'')"
    by (simp add: defs)
  have m3: "parseExample (trim ''OBJECT'') = Inr (NotArray salary)"
    by (simp add: defs)
  have m4: "''OBJECT'' \<noteq> []" by simp
  note mal = parseNaturalLanguageInput_failure_paths
    [of serviceMalformed parseExample "''P''" "''OBJECT''" "NotArray salary" salary "[]"
        serviceDown parseExample examplePrompt typedState stagingId]
  from mal m1 m2 m3 m4
  have mal_calls: "snd (parseNaturalLanguageInput serviceMalformed parseExample ''P'')
                     = [primaryRequest ''P'', fallbackRequest ''P'']"
    and mal_res: "fst (parseNaturalLanguageInput serviceMalformed parseExample ''P'')
                     = Some (wrapArray (NotArray salary))"
    by blast+
  then have mal_eq: "parseNaturalLanguageInput serviceMalformed parseExample ''P''
       = (Some [salary], [primaryRequest ''P'', fallbackRequest ''P''])"
    by (simp add: prod_eq_iff)
  have a1: "\<not> throws serviceArray parseExample (primaryRequest ''P'')"
    by (simp add: defs)
  note arr = parseNaturalLanguageInput_failure_paths
    [of serviceArray parseExample "''P''" "[]" "IsArray []" salary "[]"
        serviceDown parseExample examplePrompt typedState stagingId]
  from arr a1
  have arr_calls: "snd (parseNaturalLanguageInput serviceArray parseExample ''P'')
                     = [primaryRequest ''P'']"
    by blast
  have s1: "throws serviceSilent parseExample (primaryRequest ''P'')"
    by (simp add: defs)
  have s2: "noText serviceSilent (fallbackRequest ''P'')"
    by (simp add: defs)
  note sil = parseNaturalLanguageInput_failure_paths
    [of serviceSilent parseExample "''P''" "[]" "IsArray []" salary "[]"
        serviceDown parseExample examplePrompt typedState stagingId]
  from sil s1 s2
  have sil_null: "fst (parseNaturalLanguageInput serviceSilent parseExample ''P'') = None"
    by blast
  have q1: "noText serviceMute (primaryRequest q)" for q
    by (simp add: noText_def serviceMute_def)
  have q2: "trim (inputText typedState) \<noteq> []"
    by (simp add: typedState_def initialState_def trim_def trimStart_def isWhiteSpace_def)
  note mute = parseNaturalLanguageInput_failure_paths
    [of serviceMute parseExample "''P''" "[]" "IsArray []" salary "[]"
        serviceMute parseExample examplePrompt typedState stagingId ClientError]
  from mute q1
  have mute_eq: "parseNaturalLanguageInput serviceMute parseExample ''P''
                   = (Some [], [primaryRequest ''P''])"
    by blast
  from mute q1 q2
  have mute_staged: "processSmartEntry serviceMute parseExample examplePrompt stagingId typedState
       = typedState\<lparr> previewData := Some [] \<rparr>"
    by blast
  from mute
  have no_client: "processSmartEntryAI (Inl ClientError) parseExample examplePrompt stagingId typedState
       = typedState"
    by blast
  from d1 d2 down_eq m1 m2 m3 mal_eq a1 arr_calls s1 s2 sil_null caller_null caller
    q1 [of "''P''"] mute_eq q1 [of "examplePrompt (inputText typedState) (accounts typedState)"]
    q2 mute_staged no_client
  show ?thesis by (intro conjI)
qed

theorem parseNaturalLanguageInput_no_text_counterexample:
  "serviceMute (primaryRequest ''P'') = Response None
   \<and> parseNaturalLanguageInput serviceMute parseExample ''P'' = (Some [], [primaryRequest ''P''])
   \<and> previewData typedState = None
   \<and> processSmartEntry serviceMute parseExample examplePrompt stagingId typedState
       = typedState\<lparr> previewData := Some [] \<rparr>"
  by (simp add: parseNaturalLanguageInput_def processSmartEntry_def serviceMute_def
      primaryRequest_def typedState_def initialState_def truthy_string_def trim_def
      trimStart_def isWhiteSpace_def)

text \<open>
  Claim C6, as amended. Deleting a committed ledger entry removes the entries with its
  id from the ledger, and editing one replaces the entry with the same id by the edited
  copy; neither operation changes any account. They therefore do not preserve the
  balance invariant: from a state that satisfies it, with unique ledger ids, deleting
  an entry with a finite non-zero amount whose account is in the directory with a
  finite balance leads to a state that violates it.
\<close>

theorem edit_delete_leave_balances:
  "accounts (deleteTransaction ident s) = accounts s
   \<and> transactions (deleteTransaction ident s) = filter (\<lambda>u. t_id u \<noteq> ident) (transactions s)
   \<and> (editingTransaction s = Some edited \<longrightarrow>
        accounts (commitChange s) = accounts s
        \<and> transactions (commitChange s)
            = map (\<lambda>u. if t_id u = t_id edited then edited else u) (transactions s))
   \<and> (spec_balance_invariant opening s \<and> distinct (map t_id (transactions s))
        \<and> t \<in> set (transactions s) \<and> a \<in> set (accounts s) \<and> a_id a = t_accountId t
        \<and> a_balance a = Num b \<and> t_amount t = Num x \<and> x \<noteq> 0 \<longrightarrow>
        \<not> spec_balance_invariant opening (deleteTransaction (t_id t) s))"
proof -
  have del: "accounts (deleteTransaction ident s) = accounts s"
    "transactions (deleteTransaction ident s) = filter (\<lambda>u. t_id u \<noteq> ident) (transactions s)"
    by (simp_all add: deleteTransaction_def)
  have edit: "accounts (commitChange s) = accounts s
        \<and> transactions (commitChange s)
            = map (\<lambda>u. if t_id u = t_id edited then edited else u) (transactions s)"
    if "editingTransaction s = Some edited"
    using that by (simp add: commitChange_def)
  from del edit deleteTransaction_breaks_invariant [of "opening" s t a b x]
  show ?thesis by blast
qed

theorem edit_delete_leave_balances_witness:
  "editingTransaction (afterCoffee\<lparr> editingTransaction := Some (coffeeTx\<lparr> t_amount := Num 300 \<rparr>) \<rparr>)
     = Some (coffeeTx\<lparr> t_amount := Num 300 \<rparr>)
   \<and> accounts (commitChange
        (afterCoffee\<lparr> editingTransaction := Some (coffeeTx\<lparr> t_amount := Num 300 \<rparr>) \<rparr>))
       = [hdfc, cashWallet\<lparr> a_balance := Num 1750 \<rparr>]
   \<and> transactions (commitChange
        (afterCoffee\<lparr> editingTransaction := Some (coffeeTx\<lparr> t_amount := Num 300 \<rparr>) \<rparr>))
       = [coffeeTx\<lparr> t_amount := Num 300 \<rparr>]
   \<and> spec_balance_invariant openingBalance afterCoffee
   \<and> distinct (map t_id (transactions afterCoffee))
   \<and> coffeeTx \<in> set (transactions afterCoffee)
   \<and> cashWallet\<lparr> a_balance := Num 1750 \<rparr> \<in> set (accounts afterCoffee)
   \<and> a_id (cashWallet\<lparr> a_balance := Num 1750 \<rparr>) = t_accountId coffeeTx
   \<and> a_balance (cashWallet\<lparr> a_balance := Num 1750 \<rparr>) = Num 1750
   \<and> t_amount coffeeTx = Num 250 \<and> (250::real) \<noteq> 0
   \<and> \<not> spec_balance_invariant openingBalance (deleteTransaction (t_id coffeeTx) afterCoffee)"
proof -
  let ?e = "afterCoffee\<lparr> editingTransaction := Some (coffeeTx\<lparr> t_amount := Num 300 \<rparr>) \<rparr>"
  let ?w = "cashWallet\<lparr> a_balance := Num 1750 \<rparr>"
  have e: "editingTransaction ?e = Some (coffeeTx\<lparr> t_amount := Num 300 \<rparr>)" by simp
  note te = edit_delete_leave_balances
    [of "[]" ?e "coffeeTx\<lparr> t_amount := Num 300 \<rparr>" openingBalance coffeeTx ?w 1750 250]
  from te e have e1: "accounts (commitChange ?e) = [hdfc, ?w]"
    and e2: "transactions (commitChange ?e) = [coffeeTx\<lparr> t_amount := Num 300 \<rparr>]"
    by (simp_all add: afterCoffee_def)
  have h1: "spec_balance_invariant openingBalance afterCoffee" by (rule afterCoffee_invariant)
  have h2: "distinct (map t_id (transactions afterCoffee))" by (simp add: afterCoffee_def)
  have h3: "coffeeTx \<in> set (transactions afterCoffee)" by (simp add: afterCoffee_def)
  have h4: "?w \<in> set (accounts afterCoffee)" by (simp add: afterCoffee_def)
  have h5: "a_id ?w = t_accountId coffeeTx" by (simp add: cashWallet_def coffeeTx_def)
  have h6: "a_balance ?w = Num 1750" by simp
  have h7: "t_amount coffeeTx = Num 250" by (simp add: coffeeTx_def)
  have h8: "(250::real) \<noteq> 0" by simp
  note td = edit_delete_leave_balances
    [of "[]" afterCoffee coffeeTx openingBalance coffeeTx ?w 1750 250]
  from td h1 h2 h3 h4 h5 h6 h7 h8
  have broken: "\<not> spec_balance_invariant openingBalance (deleteTransaction (t_id coffeeTx) afterCoffee)"
    by blast
  from e e1 e2 h1 h2 h3 h4 h5 h6 h7 h8 broken show ?thesis by (intro conjI)
qed

theorem edit_delete_break_invariant_counterexample:
  "confirmTransactions clockMs clockIso (initialState\<lparr> previewData := Some [coffee] \<rparr>)
     = Inr afterCoffee
   \<and> spec_balance_invariant openingBalance initialState
   \<and> spec_balance_invariant openingBalance afterCoffee
   \<and> transactions (deleteTransaction ''1698192000000'' afterCoffee) = []
   \<and> map a_balance (accounts (deleteTransaction ''1698192000000'' afterCoffee))
       = [Num 50000, Num 1750]
   \<and> \<not> spec_balance_invariant openingBalance (deleteTransaction ''1698192000000'' afterCoffee)
   \<and> map t_amount (transactions (commitChange
         (afterCoffee\<lparr> editingTransaction := Some (coffeeTx\<lparr> t_amount := Num 300 \<rparr>) \<rparr>)))
       = [Num 300]
   \<and> map a_balance (accounts (commitChange
         (afterCoffee\<lparr> editingTransaction := Some (coffeeTx\<lparr> t_amount := Num 300 \<rparr>) \<rparr>)))
       = [Num 50000, Num 1750]
   \<and> \<not> spec_balance_invariant openingBalance (commitChange
         (afterCoffee\<lparr> editingTransaction := Some (coffeeTx\<lparr> t_amount := Num 300 \<rparr>) \<rparr>))"
  by (simp add: eval_commit_coffee afterCoffee_invariant)
     (simp add: spec_balance_invariant_def afterCoffee_def coffeeTx_def openingBalance_def
        txDelta_def example_defs deleteTransaction_def commitChange_def zero_number_def)

end
